theory Spec2Isabelle
  imports Main "HOL-Library.Sublist"
begin

section \<open>Python strings\<close>

text \<open>
  A Python \<open>str\<close> is a sequence of Unicode code points and \<open>len\<close> counts code points,
  so a string is modelled as a list of code points (the integers \<open>ord\<close> returns).  ASCII literals
  are written \<open>ustr ''...''\<close>; literals with Devanagari letters are written as lists of
  code points (U+0900 is 2304, the danda U+0964 is 2404).
\<close>

type_synonym ustring = "int list"

definition ustr :: "string \<Rightarrow> ustring" where
  "ustr s = map of_char s"

text \<open>
  \<open>str.isspace\<close> on one code point.  \<open>str.strip()\<close> without arguments and the class
  \<open>\s\<close> of \<open>re\<close> on \<open>str\<close> patterns both use this predicate.
\<close>

definition isspace :: "int \<Rightarrow> bool" where
  "isspace c \<longleftrightarrow>
     (9 \<le> c \<and> c \<le> 13) \<or> (28 \<le> c \<and> c \<le> 32) \<or> c = 133 \<or> c = 160 \<or> c = 5760 \<or>
     (8192 \<le> c \<and> c \<le> 8202) \<or> c = 8232 \<or> c = 8233 \<or> c = 8239 \<or> c = 8287 \<or> c = 12288"

definition py_strip :: "ustring \<Rightarrow> ustring" where
  "py_strip s = rev (dropWhile isspace (rev (dropWhile isspace s)))"

text \<open>\<open>s.strip(c)\<close> for a one-character argument.\<close>

definition py_strip_char :: "int \<Rightarrow> ustring \<Rightarrow> ustring" where
  "py_strip_char c s = rev (dropWhile (\<lambda>x. x = c) (rev (dropWhile (\<lambda>x. x = c) s)))"

text \<open>
  The string operations that consult the Unicode character database are taken as
  parameters, gathered in one record: \<open>str.lower()\<close>, \<open>str.title()\<close>, the class \<open>\d\<close> of
  \<open>re\<close> on \<open>str\<close> patterns (the decimal digits of every script), and the value of a
  decimal digit, from which \<open>int()\<close> reads a run of digits.
\<close>

record ucd =
  str_lower :: "ustring \<Rightarrow> ustring"
  str_title :: "ustring \<Rightarrow> ustring"
  isdecimal :: "int \<Rightarrow> bool"
  decimal_value :: "int \<Rightarrow> int"

text \<open>\<open>s.replace(c, r)\<close> for a one-character \<open>c\<close>.\<close>

definition py_replace :: "int \<Rightarrow> ustring \<Rightarrow> ustring \<Rightarrow> ustring" where
  "py_replace c r s = concat (map (\<lambda>x. if x = c then r else [x]) s)"

text \<open>\<open>s.split(sep)\<close> for a one-character separator: never the empty list.\<close>

fun py_split :: "int \<Rightarrow> ustring \<Rightarrow> ustring list" where
  "py_split sep [] = [[]]"
| "py_split sep (c # cs) =
     (if c = sep then [] # py_split sep cs
      else (case py_split sep cs of p # ps \<Rightarrow> (c # p) # ps | [] \<Rightarrow> [[c]]))"

text \<open>\<open>sep.join(parts)\<close>.\<close>

fun py_join :: "ustring \<Rightarrow> ustring list \<Rightarrow> ustring" where
  "py_join sep [] = []"
| "py_join sep [p] = p"
| "py_join sep (p # q # ps) = p @ sep @ py_join sep (q # ps)"

text \<open>
  The slice \<open>s[:n]\<close> for a Python integer \<open>n\<close>: a negative \<open>n\<close> counts from the end.
\<close>

definition slice_to :: "ustring \<Rightarrow> int \<Rightarrow> ustring" where
  "slice_to s n = (if 0 \<le> n then take (nat n) s else take (length s - nat (- n)) s)"

text \<open>\<open>p in s\<close>, \<open>s.startswith(p)\<close> and \<open>s.endswith(p)\<close>.\<close>

definition py_in :: "ustring \<Rightarrow> ustring \<Rightarrow> bool" where
  "py_in p s = sublist p s"

definition startswith :: "ustring \<Rightarrow> ustring \<Rightarrow> bool" where
  "startswith s p = prefix p s"

definition endswith :: "ustring \<Rightarrow> ustring \<Rightarrow> bool" where
  "endswith s p = suffix p s"

text \<open>\<open>'\u0900' <= char <= '\u097F'\<close>: the Devanagari block.\<close>

definition is_devanagari :: "int \<Rightarrow> bool" where
  "is_devanagari c \<longleftrightarrow> 2304 \<le> c \<and> c \<le> 2431"

text \<open>\<open>re.sub(r'\s+', ' ', s)\<close>: every maximal run of whitespace becomes one space.\<close>

function sub_whitespace :: "ustring \<Rightarrow> ustring" where
  "sub_whitespace [] = []"
| "sub_whitespace (c # cs) =
     (if isspace c then 32 # sub_whitespace (dropWhile isspace cs)
      else c # sub_whitespace cs)"
  by pat_completeness auto
termination
  by (relation "measure length") (auto simp: length_dropWhile_le less_Suc_eq_le)

section \<open>Pattern tables of \<open>content_extractor.py\<close>\<close>

definition ARTICLE_SELECTORS :: "ustring list" where
  \<open>ARTICLE_SELECTORS = [
     ustr ''.news-detail-content'',
     ustr ''.article-detail'',
     ustr ''.news-content'',
     ustr ''.news-body'',
     ustr ''.detail-content'',
     ustr ''.story-content'',
     ustr ''.post-detail'',
     ustr ''#ctl00_ContentPlaceHolder1_NewsDetailPanel'',
     ustr ''.news-detail'',
     ustr ''#ContentPlaceHolder1_NewsDetailPanel'',
     ustr ''[id*="NewsDetail"]'',
     ustr ''article'',
     ustr ''main article'',
     ustr ''[role="main"] article'',
     ustr ''.post-content'',
     ustr ''.entry-content'',
     ustr ''.article-content'',
     ustr ''.content-area'',
     ustr ''.post-body'',
     ustr ''.article-body'',
     ustr ''div[class*="content"]'',
     ustr ''div[class*="post"]'',
     ustr ''div[class*="article"]'',
     ustr ''div[class*="body"]'',
     ustr ''div[class*="text"]'',
     ustr ''#content'',
     ustr ''#main-content'',
     ustr ''#article-content'',
     ustr ''main'',
     ustr ''.main'',
     ustr ''#main'']\<close>

definition TITLE_SELECTORS :: "ustring list" where
  \<open>TITLE_SELECTORS = [
     ustr ''h1.entry-title'',
     ustr ''h1.post-title'',
     ustr ''h1.article-title'',
     ustr ''.title h1'',
     ustr ''article h1'',
     ustr ''h1'',
     ustr ''title'']\<close>

definition AUTHOR_SELECTORS :: "ustring list" where
  \<open>AUTHOR_SELECTORS = [
     ustr ''.author'',
     ustr ''.byline'',
     ustr ''.post-author'',
     ustr ''.article-author'',
     ustr ''.author-name'',
     ustr ''[rel="author"]'',
     ustr ''.writer'',
     ustr ''.journalist'']\<close>

definition DATE_SELECTORS :: "ustring list" where
  \<open>DATE_SELECTORS = [
     ustr ''time[datetime]'',
     ustr ''.published'',
     ustr ''.post-date'',
     ustr ''.article-date'',
     ustr ''.date'',
     ustr ''.timestamp'',
     ustr ''meta[property="article:published_time"]'',
     ustr ''meta[name="publish-date"]'']\<close>

definition JS_HEAVY_DOMAINS :: "ustring list" where
  \<open>JS_HEAVY_DOMAINS = [
     ustr ''nepalipaisa.com'',
     ustr ''onlinekhabar.com'',
     ustr ''ekantipur.com'',
     ustr ''merolagani.com'',
     ustr ''bikashnews.com'']\<close>

definition NAV_PATTERNS :: "ustring list" where
  \<open>NAV_PATTERNS = [
     ustr ''Home News Latest News Stock Market'',
     ustr ''Popular News Interviews Market Analysis'',
     ustr ''Investment Opportunities IPO FPO'',
     ustr ''Contact Us Feedback FAQ'',
     ustr ''Training Calculator'',
     ustr ''Share Manager Portfolio'']\<close>

definition CLEANUP_PATTERNS :: "ustring list" where
  \<open>CLEANUP_PATTERNS = [
     ustr ''Nepali Paisa In this article:'',
     ustr ''Top Stories'',
     ustr ''Related News'',
     ustr ''Share this article'',
     ustr ''Follow us on'',
     ustr ''Subscribe to'',
     ustr ''Advertisement'']\<close>

section \<open>Noise filters and cleanup\<close>

definition is_navigation_content :: "ucd \<Rightarrow> ustring \<Rightarrow> bool" where
  "is_navigation_content u s =
     (let text_lower = str_lower u s
      in list_ex (\<lambda>pattern. py_in (str_lower u pattern) text_lower) NAV_PATTERNS)"

definition has_substantial_nepali_content :: "ustring \<Rightarrow> bool" where
  "has_substantial_nepali_content s =
     (if length s < 20 then False
      else (let nepali_chars = length (filter is_devanagari s) in nepali_chars > 5))"

text \<open>One round of the loop over \<open>CLEANUP_PATTERNS\<close> in \<open>clean_article_content\<close>.\<close>

definition cleanup_step :: "ucd \<Rightarrow> ustring \<Rightarrow> ustring \<Rightarrow> ustring" where
  "cleanup_step u cleaned_text pattern =
     (let t1 = (if startswith (str_lower u cleaned_text) (str_lower u pattern)
                then py_strip (drop (length pattern) cleaned_text) else cleaned_text)
      in if endswith (str_lower u t1) (str_lower u pattern)
         then py_strip (slice_to t1 (- int (length pattern))) else t1)"

text \<open>
  \<open>re.match(r'^[^\s]+\s*:\s*', s)\<close>: the text after the match, if there is one.  The
  greedy \<open>[^\s]+\<close> first takes the whole leading run \<open>w\<close> of non-blank characters, and
  the colon (58) then has to follow the blanks after it; failing that the run is given
  back character by character, to the last colon inside \<open>w\<close> that is not its first
  character.
\<close>

definition dateline_rest :: "ustring \<Rightarrow> ustring option" where
  "dateline_rest s =
     (let w = takeWhile (\<lambda>c. \<not> isspace c) s;
          r = dropWhile isspace (drop (length w) s)
      in if w = [] then None
         else if r \<noteq> [] \<and> hd r = 58 then Some (dropWhile isspace (tl r))
         else (case filter (\<lambda>k. w ! k = 58) (rev [1..<length w]) of
                 [] \<Rightarrow> None
               | k # _ \<Rightarrow> Some (dropWhile isspace (drop (Suc k) s))))"

definition clean_article_content :: "ucd \<Rightarrow> ustring \<Rightarrow> ustring" where
  "clean_article_content u s =
     (if s = [] then s
      else (let cleaned_text = foldl (cleanup_step u) (py_strip s) CLEANUP_PATTERNS;
                cleaned_text = (case dateline_rest cleaned_text of
                                  Some rest \<Rightarrow> py_strip rest
                                | None \<Rightarrow> cleaned_text);
                cleaned_text = sub_whitespace cleaned_text
            in py_strip cleaned_text))"

section \<open>The parsed document\<close>

text \<open>
  BeautifulSoup is an external library.  A tag (and the document itself, which is a tag)
  is modelled by what \<open>content_extractor.py\<close> observes of it: its name, \<open>.string\<close>,
  \<open>str(element)\<close>, the four \<open>get_text\<close> variants in use, attribute lookup
  (\<open>element.get(name)\<close>), \<open>select\<close>, \<open>find_all\<close> on tag names, \<open>.descendants\<close>,
  and \<open>find_all(string=True)\<close> as the list of text nodes, each with the name of its
  parent.  A tag is always truthy in Python, so \<open>if element\<close> tests presence only.
\<close>

datatype node = Node
  (tag_name: "ustring option")
  (node_string: "ustring option")
  (markup: ustring)
  (get_text: ustring)
  (get_text_strip: ustring)
  (get_text_space: ustring)
  (get_text_newline: ustring)
  (attr: "ustring \<Rightarrow> ustring option")
  (select: "ustring \<Rightarrow> node list")
  (find_all: "ustring list \<Rightarrow> node list")
  (descendants: "node list")
  (text_nodes: "(ustring \<times> ustring option) list")

text \<open>\<open>soup.select_one(selector)\<close> and \<open>soup.find(name)\<close>: the first match, if any.\<close>

definition select_one :: "node \<Rightarrow> ustring \<Rightarrow> node option" where
  "select_one soup selector = (case select soup selector of [] \<Rightarrow> None | e # _ \<Rightarrow> Some e)"

definition find_first :: "node \<Rightarrow> ustring \<Rightarrow> node option" where
  "find_first soup nm = (case find_all soup [nm] of [] \<Rightarrow> None | e # _ \<Rightarrow> Some e)"

section \<open>The environment: libraries, network and clock\<close>

text \<open>An exception, with its message \<open>str(e)\<close>.\<close>

datatype exn = Exn (message: ustring)

record url_parts =
  netloc :: ustring
  path :: ustring

text \<open>
  Everything the module takes from outside is a field of the environment: whether
  Playwright could be imported, the HTTP session (\<open>session.get\<close> with
  \<open>raise_for_status\<close>, returning \<open>response.text\<close>), the browser
  (\<open>fetch_rendered_html_async\<close>), the HTML parser, \<open>unicodedata.normalize('NFC', _)\<close>,
  \<open>urllib.parse.urlparse\<close>, the Unicode character database behind the string
  operations, and the \<open>datetime\<close> operations with the clock.  A value of type \<open>'dt\<close> is
  a \<open>datetime\<close> object.  Each operation that can raise returns a sum, \<open>Inl\<close> the
  exception.
\<close>

record 'dt env =
  PLAYWRIGHT_AVAILABLE :: bool
  http_get :: "ustring \<Rightarrow> exn + ustring"
  render_page :: "ustring \<Rightarrow> exn + ustring"
  BeautifulSoup :: "ustring \<Rightarrow> exn + node"
  normalize_NFC :: "ustring \<Rightarrow> ustring"
  unicode_db :: ucd
  urlparse :: "ustring \<Rightarrow> exn + url_parts"
  fromisoformat :: "ustring \<Rightarrow> exn + 'dt"
  now_minus_hours :: "int \<Rightarrow> exn + 'dt"
  now_minus_minutes :: "int \<Rightarrow> exn + 'dt"
  make_datetime :: "int \<Rightarrow> int \<Rightarrow> int \<Rightarrow> exn + 'dt"
  isoformat :: "'dt \<Rightarrow> ustring"

text \<open>\<open>clean_text(element)\<close> on a tag.\<close>

definition clean_text :: "'dt env \<Rightarrow> node \<Rightarrow> ustring" where
  "clean_text lib element = normalize_NFC lib (get_text_space element)"

section \<open>Generic strategy\<close>

text \<open>A candidate is the tuple \<open>(text, len(text), selector)\<close>.\<close>

type_synonym candidate = "ustring \<times> nat \<times> ustring"

text \<open>\<open>xs.sort(key=lambda x: x[1], reverse=True)\<close>: descending and stable.\<close>

definition sort_by_length_desc :: "candidate list \<Rightarrow> candidate list" where
  "sort_by_length_desc xs = rev (sort_key (\<lambda>x. fst (snd x)) (rev xs))"

definition selector_candidates :: "'dt env \<Rightarrow> node \<Rightarrow> candidate list" where
  "selector_candidates lib soup =
     concat (map (\<lambda>selector.
        map (\<lambda>t. (t, length t, selector))
          (filter (\<lambda>t. t \<noteq> [] \<and> length t > 100 \<and> \<not> is_navigation_content (unicode_db lib) t)
             (map (clean_text lib) (select soup selector))))
       ARTICLE_SELECTORS)"

text \<open>
  The list \<open>good_paragraphs\<close> that the loop over \<open>paragraphs\<close> fills, and the candidate made
  of it.
\<close>

definition good_paragraphs :: "'dt env \<Rightarrow> node list \<Rightarrow> ustring list" where
  "good_paragraphs lib paragraphs =
     filter (\<lambda>p_text. p_text \<noteq> [] \<and> length p_text > 20 \<and> \<not> is_navigation_content (unicode_db lib) p_text)
       (map (clean_text lib) paragraphs)"

definition paragraph_candidates :: "'dt env \<Rightarrow> node \<Rightarrow> candidate list" where
  "paragraph_candidates lib soup =
     (let paragraphs = find_all soup [ustr ''p'']
      in if paragraphs \<noteq> [] then
           (if good_paragraphs lib paragraphs \<noteq> [] then
              (let combined_text = py_join (ustr '' '') (good_paragraphs lib paragraphs)
               in if length combined_text > 50
                  then [(combined_text, length combined_text, ustr ''filtered_paragraphs'')]
                  else [])
            else [])
         else [])"

definition element_candidates :: "'dt env \<Rightarrow> node \<Rightarrow> candidate list" where
  "element_candidates lib soup =
     map (\<lambda>t. (t, length t, ustr ''nepali_content_element''))
       (filter (\<lambda>t. length t > 100 \<and> has_substantial_nepali_content t \<and> \<not> is_navigation_content (unicode_db lib) t)
          (map (clean_text lib)
             (find_all soup [ustr ''div'', ustr ''span'', ustr ''section'', ustr ''article'', ustr ''p''])))"

text \<open>
  The list \<open>nepali_texts\<close> that the loop over the text nodes fills, and the candidate made
  of it.
\<close>

definition nepali_texts :: "'dt env \<Rightarrow> node \<Rightarrow> ustring list" where
  "nepali_texts lib soup =
     map fst
       (filter (\<lambda>(t, parent). length t > 30 \<and> has_substantial_nepali_content t \<and>
                  \<not> is_navigation_content (unicode_db lib) t \<and>
                  (case parent of None \<Rightarrow> False
                   | Some nm \<Rightarrow> nm \<notin> set [ustr ''script'', ustr ''style'', ustr ''title'']))
          (map (\<lambda>(s, parent). (py_strip s, parent)) (text_nodes soup)))"

definition text_node_candidates :: "'dt env \<Rightarrow> node \<Rightarrow> candidate list" where
  "text_node_candidates lib soup =
     (if nepali_texts lib soup \<noteq> [] then
        (let combined_nepali = py_join (ustr '' '') (nepali_texts lib soup)
         in if length combined_nepali > 50
            then [(combined_nepali, length combined_nepali, ustr ''combined_nepali_text'')]
            else [])
      else [])"

text \<open>The four tiers that fill \<open>body_candidates\<close>, each tried only while the list is empty.\<close>

definition body_candidates :: "'dt env \<Rightarrow> node \<Rightarrow> candidate list" where
  "body_candidates lib soup =
     (let c1 = selector_candidates lib soup;
          c2 = (if c1 = [] then paragraph_candidates lib soup else c1);
          c3 = (if c2 = [] then element_candidates lib soup else c2)
      in if c3 = [] then text_node_candidates lib soup else c3)"

text \<open>
  The selection among the candidates, for a list that is not empty: the candidates with
  substantial Nepali content if there are any, else all of them, longest first.
\<close>

definition best_candidate :: "candidate list \<Rightarrow> candidate" where
  "best_candidate cands =
     (let nepali_candidates = filter (\<lambda>(t, len, selector). has_substantial_nepali_content t) cands
      in if nepali_candidates \<noteq> []
         then hd (sort_by_length_desc nepali_candidates)
         else hd (sort_by_length_desc cands))"

definition truncate_with_ellipsis :: "ustring \<Rightarrow> int \<Rightarrow> ustring" where
  "truncate_with_ellipsis best_text max_length =
     (if int (length best_text) > max_length
      then slice_to best_text max_length @ ustr ''...''
      else best_text)"

definition title_fallback :: "'dt env \<Rightarrow> node \<Rightarrow> ustring" where
  "title_fallback lib soup =
     (case find_first soup (ustr ''title'') of
        Some title_elem \<Rightarrow>
          (let title_text = clean_text lib title_elem
           in if has_substantial_nepali_content title_text then title_text else [])
      | None \<Rightarrow> [])"

definition extract_generic_content :: "'dt env \<Rightarrow> node \<Rightarrow> int \<Rightarrow> ustring" where
  "extract_generic_content lib soup max_length =
     (let cands = body_candidates lib soup
      in if cands \<noteq> [] then
           (let (best_text, best_length, best_selector) = best_candidate cands;
                best_text = clean_article_content (unicode_db lib) best_text
            in truncate_with_ellipsis best_text max_length)
         else title_fallback lib soup)"


section \<open>Source-B strategy (bikashnews)\<close>

definition bikashnews_selectors :: "ustring list" where
  \<open>bikashnews_selectors = [
     ustr ''.story-content'',
     ustr ''.news-content'',
     ustr ''.article-body'',
     ustr ''.post-content'',
     ustr ''article .content'',
     ustr ''.main-content'',
     ustr ''div[class*="content"] p'',
     ustr ''article p'']\<close>

definition bikashnews_main_selectors :: "ustring list" where
  \<open>bikashnews_main_selectors = [
     ustr ''div[class*="story-content"]'',
     ustr ''div[class*="article-content"]'',
     ustr ''div[class*="news-content"]'',
     ustr ''div[class*="main-content"]'',
     ustr ''.post-content'',
     ustr ''article'',
     ustr ''div[id*="story"]'',
     ustr ''div[id*="article"]'']\<close>

definition bikashnews_sidebar_indicators :: "ustring list" where
  \<open>bikashnews_sidebar_indicators = [
     ustr ''sidebar'',
     ustr ''related'',
     ustr ''popular'',
     ustr ''trending'',
     ustr ''more-news'',
     ustr ''right-column'',
     ustr ''side-content'',
     ustr ''widget'',
     ustr ''advertisement'',
     ustr ''share-news'',
     ustr ''social-share'',
     ustr ''pdf-viewer'']\<close>

definition bikashnews_sidebar_patterns :: "ustring list" where
  \<open>bikashnews_sidebar_patterns = [
     [83, 104, 97, 114, 101, 32, 78, 101, 119, 115, 32, 2354, 2379, 2325, 2346, 2381, 2352, 2367, 2351],
     [2354, 2366, 2349, 2366, 2306, 2358, 32, 2360, 2367, 2332, 2344],
     [2344, 2375, 2346, 2366, 2354, 32, 2319, 2360, 2348, 2367, 2310, 2312],
     [2349, 2370, 2359, 2339, 32, 2352, 2366, 2339, 2366],
     [2319, 2344, 2310, 2312, 2360, 2368, 32, 2319, 2358, 2367, 2351, 2366, 32, 2348, 2376, 2306, 2325],
     [2360, 2350, 2381, 2348, 2344, 2381, 2343, 2367, 2340, 32, 2326, 2348, 2352],
     ustr ''Loading WEBGL'',
     ustr ''Loading PDF'',
     ustr ''Share Previous Page'',
     ustr ''Toggle Outline'',
     ustr ''Zoom In'',
     ustr ''Download PDF'']\<close>

definition bikashnews_unwanted_patterns :: "ustring list" where
  \<open>bikashnews_unwanted_patterns = [
     ustr ''Loading WEBGL 3D'',
     ustr ''Loading PDF 100%'',
     ustr ''Share Previous Page'',
     ustr ''Toggle Outline/Bookmark'',
     ustr ''Toggle Thumbnails'',
     ustr ''Zoom In Zoom Out'',
     ustr ''Toggle Fullscreen'',
     ustr ''Download PDF File'',
     ustr ''Double Page Mode'',
     ustr ''Goto First Page'',
     ustr ''Goto Last Page'',
     ustr ''Turn on/off Sound'',
     [83, 104, 97, 114, 101, 32, 78, 101, 119, 115, 32, 2354, 2379, 2325, 2346, 2381, 2352, 2367, 2351],
     [2360, 2348, 2376, 32, 2346, 2338, 2381, 2344, 2369, 2361, 2379, 2360, 2381],
     [2354, 2366, 2349, 2366, 2306, 2358, 32, 2360, 2367, 2332, 2344],
     [2344, 2375, 2346, 2366, 2354, 32, 2319, 2360, 2348, 2367, 2310, 2312],
     [2349, 2370, 2359, 2339, 32, 2352, 2366, 2339, 2366],
     [2319, 2344, 2310, 2312, 2360, 2368, 32, 2319, 2358, 2367, 2351, 2366, 32, 2348, 2376, 2306, 2325],
     [2360, 2350, 2381, 2348, 2344, 2381, 2343, 2367, 2340, 32, 2326, 2348, 2352],
     [2357, 2367, 2325, 2366, 2360, 2344, 2381, 2351, 2369, 2332, 32, 2310, 2311, 2340, 2348, 2366, 2352],
     [2309, 32, 2309, 32, 2325, 2366, 2336, 2350, 2366, 2337, 2380, 2306]]\<close>

definition bikashnews_unwanted_words :: "ustring list" where
  \<open>bikashnews_unwanted_words = [
     ustr ''Loading'',
     ustr ''Share'',
     ustr ''Toggle'',
     ustr ''Zoom'',
     ustr ''Download'',
     ustr ''PDF'',
     [2354, 2366, 2349, 2366, 2306, 2358, 32, 2360, 2367, 2332, 2344],
     [2344, 2375, 2346, 2366, 2354, 32, 2319, 2360, 2348, 2367, 2310, 2312],
     [2349, 2370, 2359, 2339, 32, 2352, 2366, 2339, 2366],
     [2360, 2350, 2381, 2348, 2344, 2381, 2343, 2367, 2340, 32, 2326, 2348, 2352],
     [2357, 2367, 2325, 2366, 2360, 2344, 2381, 2351, 2369, 2332, 32, 2310, 2311, 2340, 2348, 2366, 2352]]\<close>

definition is_bikashnews_sidebar_content :: "ucd \<Rightarrow> node \<Rightarrow> bool" where
  "is_bikashnews_sidebar_content u element =
     (let element_str = markup element
      in list_ex (\<lambda>indicator. py_in indicator (str_lower u element_str)) bikashnews_sidebar_indicators)"

definition is_bikashnews_sidebar_content_text :: "ustring \<Rightarrow> bool" where
  "is_bikashnews_sidebar_content_text s = list_ex (\<lambda>pattern. py_in pattern s) bikashnews_sidebar_patterns"

definition is_bikashnews_unwanted_content :: "ustring \<Rightarrow> bool" where
  "is_bikashnews_unwanted_content s = list_ex (\<lambda>pattern. py_in pattern s) bikashnews_unwanted_patterns"

text \<open>
  The loops of \<open>extract_bikashnews_main_article\<close> over the selectors and their
  containers, as one loop over the containers in that order.  \<open>content_parts\<close> is
  returned as soon as it is not empty, so it is empty whenever a container is entered.
\<close>

fun bikashnews_main_containers :: "ucd \<Rightarrow> node list \<Rightarrow> ustring" where
  "bikashnews_main_containers u [] = []"
| "bikashnews_main_containers u (container # rest) =
     (if is_bikashnews_sidebar_content u container then bikashnews_main_containers u rest
      else (let t = get_text_space container
            in if t \<noteq> [] \<and> length t > 200 then
                 (let content_parts =
                        filter (\<lambda>line. length line > 30 \<and>
                                  \<not> is_bikashnews_unwanted_content line \<and>
                                  \<not> is_bikashnews_sidebar_content_text line \<and>
                                  list_ex is_devanagari line)
                          (map py_strip (py_split 2404 t))
                  in if content_parts \<noteq> [] then py_join [2404] content_parts
                     else bikashnews_main_containers u rest)
               else bikashnews_main_containers u rest))"

definition extract_bikashnews_main_article :: "ucd \<Rightarrow> node \<Rightarrow> ustring" where
  "extract_bikashnews_main_article u soup =
     bikashnews_main_containers u (concat (map (select soup) bikashnews_main_selectors))"

text \<open>
  \<open>extract_bikashnews_content\<close>: the list \<open>content_parts\<close> after the loop over the selectors
  and the paragraph loop that runs when the first left it empty, and the text joined from
  it.
\<close>

definition bikashnews_content_parts :: "'dt env \<Rightarrow> node \<Rightarrow> ustring list" where
  "bikashnews_content_parts lib soup =
     (let content_parts =
            concat (map (\<lambda>selector.
              filter (\<lambda>t. t \<noteq> [] \<and> length t > 50 \<and> has_substantial_nepali_content t \<and>
                        \<not> is_navigation_content (unicode_db lib) t)
                (map (clean_text lib) (select soup selector)))
              bikashnews_selectors)
      in if content_parts = [] then
           filter (\<lambda>t. t \<noteq> [] \<and> length t > 30 \<and> has_substantial_nepali_content t \<and>
                     \<not> is_navigation_content (unicode_db lib) t)
             (map (clean_text lib) (find_all soup [ustr ''p'']))
         else content_parts)"

definition extract_bikashnews_content :: "'dt env \<Rightarrow> node \<Rightarrow> int \<Rightarrow> ustring" where
  "extract_bikashnews_content lib soup max_length =
     (let result = py_join (ustr '' '') (bikashnews_content_parts lib soup)
      in if int (length result) > max_length then slice_to result max_length else result)"

text \<open>
  The two patterns of \<open>unwanted_start_patterns\<close>, matched at the start of a line: the
  length of the match.  Both run to the first danda (2404) after the line start and the
  blanks that follow it, since \<open>[^\<dots>]*\<close> cannot cross a danda.  The first,
  \<open>r'^[^|]*X[^|]*Y\s*|\s*'\<close> with \<open>|\<close> the danda, \<open>X\<close> the site name with the weekday and
  \<open>Y\<close> the dateline marker, needs \<open>Y\<close> right before the blanks that precede the danda and
  \<open>X\<close> somewhere before \<open>Y\<close>; the second, \<open>r'^[^|]*Loading[^|]*|\s*'\<close>, needs \<open>Loading\<close>
  before the danda.
\<close>

definition match_title_block :: "ustring \<Rightarrow> nat option" where
  "match_title_block s =
     (let X = [2357, 2367, 2325, 2366, 2360, 2344, 2381, 2351, 2369, 2332, 32,
               2310, 2311, 2340, 2348, 2366, 2352];
          Y = [2309, 32, 2309, 32, 2325, 2366, 2336, 2350, 2366, 2337, 2380, 2306];
          seg = takeWhile (\<lambda>c. c \<noteq> 2404) s;
          after = drop (length seg) s;
          body = rev (dropWhile isspace (rev seg))
      in if after \<noteq> [] \<and> endswith body Y \<and> py_in X (take (length body - length Y) body)
         then Some (length seg + 1 + length (takeWhile isspace (tl after)))
         else None)"

definition match_loading_block :: "ustring \<Rightarrow> nat option" where
  "match_loading_block s =
     (let seg = takeWhile (\<lambda>c. c \<noteq> 2404) s;
          after = drop (length seg) s
      in if after \<noteq> [] \<and> py_in (ustr ''Loading'') seg
         then Some (length seg + 1 + length (takeWhile isspace (tl after)))
         else None)"

text \<open>
  \<open>re.sub(pattern, '', s, flags=re.MULTILINE)\<close> for a pattern anchored with \<open>^\<close>, given
  as the function \<open>m\<close> from a position's text to the length of the match there.  \<open>bol\<close>
  says whether the position is the start of a line (the start of the string, or right
  after a newline, 10).
\<close>

function sub_at_line_starts :: "(ustring \<Rightarrow> nat option) \<Rightarrow> bool \<Rightarrow> ustring \<Rightarrow> ustring" where
  "sub_at_line_starts m bol [] = []"
| "sub_at_line_starts m bol (c # cs) =
     (case (if bol then m (c # cs) else None) of
        Some (Suc n) \<Rightarrow> sub_at_line_starts m (last (c # take n cs) = 10) (drop n cs)
      | _ \<Rightarrow> c # sub_at_line_starts m (c = 10) cs)"
  by pat_completeness auto
termination
  by (relation "measure (\<lambda>(m, bol, s). length s)") (auto simp: less_Suc_eq_le)

text \<open>\<open>re.sub(p + '.*$', '', s, flags=re.DOTALL)\<close> for a literal \<open>p\<close>: everything from
  the first occurrence of \<open>p\<close> on is removed.\<close>

fun cut_from :: "ustring \<Rightarrow> ustring \<Rightarrow> ustring" where
  "cut_from p [] = []"
| "cut_from p (c # cs) = (if startswith (c # cs) p then [] else c # cut_from p cs)"

definition clean_bikashnews_content :: "ustring \<Rightarrow> ustring" where
  "clean_bikashnews_content s =
     (if s = [] then s
      else (let s1 = sub_at_line_starts match_title_block True s;
                s2 = sub_at_line_starts match_loading_block True s1;
                sentences = py_split 2404 s2;
                clean_sentences =
                  filter (\<lambda>sentence. sentence \<noteq> [] \<and> \<not> is_bikashnews_unwanted_content sentence \<and>
                            \<not> list_ex (\<lambda>unwanted. py_in unwanted sentence) bikashnews_unwanted_words)
                    (map py_strip sentences);
                cleaned_text = py_strip (py_join [2404] clean_sentences);
                cleaned_text = cut_from [83, 104, 97, 114, 101, 32, 78, 101, 119, 115, 32,
                                         2354, 2379, 2325, 2346, 2381, 2352, 2367, 2351] cleaned_text;
                cleaned_text = cut_from [2360, 2350, 2381, 2348, 2344, 2381, 2343, 2367, 2340, 32,
                                         2326, 2348, 2352] cleaned_text;
                cleaned_text = cut_from (ustr ''Loading'') cleaned_text
            in py_strip cleaned_text))"

text \<open>The final paragraph fallback of \<open>extract_bikashnews_content_full\<close>.\<close>

definition bikashnews_paragraphs :: "'dt env \<Rightarrow> node \<Rightarrow> ustring list" where
  "bikashnews_paragraphs lib soup =
     filter (\<lambda>t. t \<noteq> [] \<and> length t > 30 \<and> has_substantial_nepali_content t \<and>
               \<not> is_navigation_content (unicode_db lib) t \<and> \<not> is_bikashnews_unwanted_content t)
       (map (clean_text lib)
          (filter (\<lambda>p. \<not> is_bikashnews_sidebar_content (unicode_db lib) p) (find_all soup [ustr ''p''])))"

definition extract_bikashnews_content_full :: "'dt env \<Rightarrow> node \<Rightarrow> int \<Rightarrow> ustring" where
  \<open>extract_bikashnews_content_full lib soup max_length =
     (let main_content = extract_bikashnews_main_article (unicode_db lib) soup
      in if main_content \<noteq> [] \<and> length main_content > 100
         then slice_to (clean_bikashnews_content main_content) max_length
         else
           (let content_div =
                  (case select_one soup (ustr ''div[class*="content"]'') of
                     Some d \<Rightarrow> Some d
                   | None \<Rightarrow> select_one soup (ustr ''.content''));
                extracted =
                  (case content_div of
                     Some d \<Rightarrow> extract_bikashnews_content lib d (max_length * 2)
                   | None \<Rightarrow> [])
            in if content_div \<noteq> None \<and> extracted \<noteq> [] \<and> length extracted > 100
               then slice_to (clean_bikashnews_content extracted) max_length
               else
                 (let result = py_join (ustr '' '') (bikashnews_paragraphs lib soup)
                  in slice_to (clean_bikashnews_content result) max_length)))\<close>

section \<open>Source-C strategy (merolagani)\<close>

definition merolagani_skip_words :: "ustring list" where
  \<open>merolagani_skip_words = [
     ustr ''facebook'',
     ustr ''twitter'',
     ustr ''whatsapp'',
     ustr ''copy link'',
     ustr ''popular news'',
     ustr ''more'',
     ustr ''log in'',
     ustr ''edit account'',
     ustr ''change password'',
     ustr ''search'',
     [2325, 2350, 2381, 2346, 2344, 2368, 2354, 2375, 32, 2327, 2352, 2375, 32, 2354, 2366, 2349, 2366, 2306, 2358],
     [2346, 2381, 2352, 2340, 2367, 2358, 2340, 2360, 2350, 2381, 2350, 32, 2354, 2366, 2349, 2366, 2306, 2358],
     ustr ''sep '',
     ustr ''am'',
     ustr ''pm'']\<close>

definition merolagani_skip_words_lines :: "ustring list" where
  \<open>merolagani_skip_words_lines = [
     ustr ''facebook'',
     ustr ''twitter'',
     ustr ''whatsapp'',
     ustr ''copy link'',
     ustr ''popular news'',
     ustr ''more'',
     ustr ''log in'',
     ustr ''edit account'',
     ustr ''change password'',
     ustr ''search'',
     [2325, 2350, 2381, 2346, 2344, 2368, 2354, 2375, 32, 2327, 2352, 2375, 32, 2354, 2366, 2349, 2366, 2306, 2358],
     [2346, 2381, 2352, 2340, 2367, 2358, 2340, 2360, 2350, 2381, 2350, 32, 2354, 2366, 2349, 2366, 2306, 2358],
     ustr ''sep '',
     ustr ''am'',
     ustr ''pm'',
     ustr ''edit account'',
     ustr ''verify mobile'',
     ustr ''remove account'',
     ustr ''log out'']\<close>

definition merolagani_main_selectors :: "ustring list" where
  \<open>merolagani_main_selectors = [
     ustr ''div[class*="news-detail"]'',
     ustr ''div[class*="article-content"]'',
     ustr ''div[class*="main-content"]'',
     ustr ''.news-content'',
     ustr ''article'',
     ustr ''div[id*="news"]'',
     ustr ''div[id*="article"]'']\<close>

definition merolagani_sidebar_indicators :: "ustring list" where
  \<open>merolagani_sidebar_indicators = [
     ustr ''sidebar'',
     ustr ''related'',
     ustr ''popular'',
     ustr ''trending'',
     ustr ''more-news'',
     ustr ''right-column'',
     ustr ''side-content'',
     ustr ''widget'',
     ustr ''advertisement'']\<close>

definition merolagani_sidebar_patterns :: "ustring list" where
  \<open>merolagani_sidebar_patterns = [
     [2358, 2375, 2351, 2352, 32, 2348, 2332, 2366, 2352],
     [2310, 2312, 2346, 2368, 2323],
     [2325, 2350, 2381, 2346, 2344, 2368],
     [2354, 2366, 2349, 2366, 2306, 2358],
     [2344, 2375, 2346, 2381, 2360, 2375],
     [2335, 2381, 2352, 2351, 2366, 2325, 32, 2352, 2325, 2375, 2352, 2381, 2337],
     [2325, 2366, 2354, 2379, 32, 2360, 2379, 2350, 2348, 2366, 2352],
     [2352, 2366, 2311, 2335, 32, 2358, 2375, 2351, 2352],
     [2346, 2366, 2311, 2346, 2354, 2366, 2312, 2344],
     [2342, 2358, 2376, 2306, 32, 2346, 2331, 2367],
     [2350, 2344, 2360, 2369, 2344, 32, 2348, 2361, 2367, 2352, 2381, 2327, 2350, 2344],
     [2309, 2359, 2381, 2335, 2350, 2368, 44, 2344, 2357, 2350, 2368],
     [2335, 2368, 2325, 2366, 2325, 2376, 32, 2342, 2367, 2344],
     [2346, 2370, 2352, 2381, 2357, 2366, 2344, 2369, 2350, 2366, 2344, 32, 2352, 2367, 2346, 2366, 2375, 2352, 2381, 2335]]\<close>

definition merolagani_end_patterns :: "ustring list" where
  \<open>merolagani_end_patterns = [
     [2342, 2358, 2376, 2325, 2366, 2375, 32, 2349, 2366, 2375, 2354, 2368, 2346, 2354, 2381, 2335, 2342, 2375, 2326, 2367],
     [2342, 2358, 2376, 2306, 32, 2346, 2331, 2367, 32, 2325, 2375, 32, 2361, 2379, 2354, 2366],
     [2357, 2352, 2381, 2359, 2325, 2379, 32, 39, 2335, 2381, 2352, 2351, 2366, 2325, 32, 2352, 2325, 2375, 2352, 2381, 2337, 39],
     [2358, 2375, 2351, 2352, 32, 2348, 2332, 2366, 2352, 2350, 2366, 32, 39, 2325, 2366, 2354, 2379, 32, 2360, 2379, 2350, 2348, 2366, 2352, 39],
     [2346, 2381, 2352, 2366, 2341, 2350, 2367, 2325, 32, 2361, 2369, 2342, 2376, 32, 2342, 2379, 2360, 2381, 2352, 2379, 32, 2348, 2332, 2366, 2352],
     [2310, 2312, 2346, 2368, 2323, 32, 2352, 32, 2352, 2366, 2311, 2335, 32, 2358, 2375, 2351, 2352],
     [2342, 2358, 2376, 2305, 2325, 2379, 32, 2335, 2368, 2325, 2366, 2325, 2376, 32, 2342, 2367, 2344],
     [2350, 2344, 2360, 2369, 2344, 32, 2348, 2361, 2367, 2352, 2381, 2327, 2350, 2344],
     [2309, 2359, 2381, 2335, 2350, 2368, 44, 2344, 2357, 2350, 2368, 32, 2352, 32, 2342, 2358, 2350, 2368],
     [2350, 2380, 2360, 2350, 32, 2346, 2370, 2352, 2381, 2357, 2366, 2344, 2369, 2350, 2366, 2344, 32, 2352, 2367, 2346, 2366, 2375, 2352, 2381, 2335],
     [2360, 2369, 2330, 2344, 2366, 32, 2340, 2341, 2366, 32, 2346, 2381, 2352, 2360, 2366, 2352, 2339, 32, 2357, 2367, 2349, 2366, 2327],
     [2346, 2381, 2352, 2325, 2366, 2358, 2325, 32, 45],
     [2319, 2360, 2381, 2335, 2381, 2352, 2367, 2325, 32, 2335, 2375, 2325, 2381, 2344, 2379, 2354, 2379, 2332, 2368],
     ustr ''editor@merolagani.com'',
     [2342, 46, 2344, 46, 32, 2410, 2410, 2406],
     [2352, 2367, 2346, 2366, 2375, 2352, 2381, 2335, 32, 2360, 2369, 2330, 2344, 2366, 32, 2340, 2341, 2366, 32, 2346, 2381, 2352, 2360, 2366, 2352, 2339],
     [63, 32, 2342, 2358, 2376, 2306, 32, 2346, 2331, 2367, 32, 2325, 2375, 32, 2361, 2379, 2354, 2366],
     [63, 32, 2411, 32, 2357, 2352, 2381, 2359, 2325, 2379],
     [2354, 2375, 32, 2342, 2367, 2319, 2325, 2379, 32, 2330, 2375, 2340, 2366, 2357, 2344, 2368, 32, 2346, 2381, 2352, 2366, 2341, 2350, 2367, 2325],
     [2346, 2366, 2311, 2346, 2354, 2366, 2312, 2344, 2350, 2366, 32, 63, 32, 2342, 2358, 2376, 2305, 2325, 2379]]\<close>

definition merolagani_unwanted_words :: "ustring list" where
  \<open>merolagani_unwanted_words = [
     [2358, 2375, 2351, 2352, 32, 2348, 2332, 2366, 2352],
     [2310, 2312, 2346, 2368, 2323],
     [2352, 2366, 2311, 2335, 32, 2358, 2375, 2351, 2352],
     [2350, 2344, 2360, 2369, 2344, 32, 2348, 2361, 2367, 2352, 2381, 2327, 2350, 2344],
     [2346, 2381, 2352, 2325, 2366, 2358, 2325],
     ustr ''editor@'',
     [2342, 46, 2344, 46],
     [2319, 2360, 2381, 2335, 2381, 2352, 2367, 2325, 32, 2335, 2375, 2325, 2381, 2344, 2379, 2354, 2379, 2332, 2368],
     [2360, 2369, 2330, 2344, 2366, 32, 2340, 2341, 2366, 32, 2346, 2381, 2352, 2360, 2366, 2352, 2339],
     [2335, 2381, 2352, 2351, 2366, 2325, 32, 2352, 2325, 2375, 2352, 2381, 2337],
     [2325, 2366, 2354, 2379, 32, 2360, 2379, 2350, 2348, 2366, 2352]]\<close>

definition is_merolagani_sidebar_content :: "ucd \<Rightarrow> node \<Rightarrow> bool" where
  "is_merolagani_sidebar_content u element =
     (let element_str = markup element
      in if list_ex (\<lambda>indicator. py_in indicator (str_lower u element_str)) merolagani_sidebar_indicators
         then True
         else (let t = get_text_strip element
               in if t \<noteq> [] then
                    (let question_marks = length (filter (\<lambda>c. c = 63) t)
                     in if question_marks > 2 \<and> length t < 500 then True else False)
                  else False))"

definition is_merolagani_sidebar_content_text :: "ustring \<Rightarrow> bool" where
  "is_merolagani_sidebar_content_text s = list_ex (\<lambda>pattern. py_in pattern s) merolagani_sidebar_patterns"

definition is_merolagani_article_end :: "ustring \<Rightarrow> bool" where
  "is_merolagani_article_end line = list_ex (\<lambda>pattern. py_in pattern line) merolagani_end_patterns"

text \<open>The loops of \<open>extract_merolagani_main_article\<close>, as for Source-B; the container's
  text is split at newlines (10).\<close>

fun merolagani_main_containers :: "ucd \<Rightarrow> node list \<Rightarrow> ustring" where
  "merolagani_main_containers u [] = []"
| "merolagani_main_containers u (container # rest) =
     (if is_merolagani_sidebar_content u container then merolagani_main_containers u rest
      else (let t = get_text_space container
            in if t \<noteq> [] \<and> length t > 200 then
                 (let content_parts =
                        filter (\<lambda>line. length line > 30 \<and>
                                  \<not> is_merolagani_article_end line \<and>
                                  \<not> is_merolagani_sidebar_content_text line \<and>
                                  list_ex is_devanagari line)
                          (map py_strip (py_split 10 t))
                  in if content_parts \<noteq> [] then py_join (ustr '' '') content_parts
                     else merolagani_main_containers u rest)
               else merolagani_main_containers u rest))"

definition extract_merolagani_main_article :: "ucd \<Rightarrow> node \<Rightarrow> ustring" where
  "extract_merolagani_main_article u soup =
     merolagani_main_containers u (concat (map (select soup) merolagani_main_selectors))"

definition extract_merolagani_content :: "ucd \<Rightarrow> node \<Rightarrow> ustring" where
  "extract_merolagani_content u element =
     (let content_parts =
            filter (\<lambda>t. length t > 30 \<and>
                      \<not> list_ex (\<lambda>skip. py_in skip (str_lower u t)) merolagani_skip_words \<and>
                      list_ex is_devanagari t)
              (concat (map (\<lambda>child.
                 if tag_name child \<in> set [Some (ustr ''p''), Some (ustr ''div'')]
                 then (case node_string child of
                         Some s \<Rightarrow> if s \<noteq> [] then [py_strip s] else []
                       | None \<Rightarrow> [])
                 else [])
                (descendants element)));
          content_parts =
            (if content_parts = [] then
               filter (\<lambda>line. length line > 30 \<and>
                         \<not> list_ex (\<lambda>skip. py_in skip (str_lower u line)) merolagani_skip_words_lines \<and>
                         list_ex is_devanagari line)
                 (map py_strip (py_split 10 (get_text_newline element)))
             else content_parts)
      in if content_parts \<noteq> [] then py_join (ustr '' '') content_parts else [])"

definition clean_merolagani_content :: "ustring \<Rightarrow> ustring" where
  "clean_merolagani_content s =
     (if s = [] then s
      else (let sentences = py_split 2404 s;
                clean_sentences =
                  filter (\<lambda>sentence. sentence \<noteq> [] \<and> \<not> is_merolagani_article_end sentence \<and>
                            \<not> list_ex (\<lambda>unwanted. py_in unwanted sentence) merolagani_unwanted_words)
                    (map py_strip sentences)
            in py_strip (py_join [2404] clean_sentences)))"

text \<open>The final paragraph fallback of \<open>extract_merolagani_content_full\<close>.\<close>

definition merolagani_paragraphs :: "'dt env \<Rightarrow> node \<Rightarrow> ustring list" where
  "merolagani_paragraphs lib soup =
     filter (\<lambda>t. t \<noteq> [] \<and> length t > 30 \<and> has_substantial_nepali_content t \<and>
               \<not> is_navigation_content (unicode_db lib) t \<and> \<not> is_merolagani_article_end t)
       (map (clean_text lib)
          (filter (\<lambda>p. \<not> is_merolagani_sidebar_content (unicode_db lib) p) (find_all soup [ustr ''p''])))"

definition extract_merolagani_content_full :: "'dt env \<Rightarrow> node \<Rightarrow> int \<Rightarrow> ustring" where
  \<open>extract_merolagani_content_full lib soup max_length =
     (let main_content = extract_merolagani_main_article (unicode_db lib) soup
      in if main_content \<noteq> [] \<and> length main_content > 100
         then slice_to (clean_merolagani_content main_content) max_length
         else
           (let content_div =
                  (case select_one soup (ustr ''div[class*="content"]'') of
                     Some d \<Rightarrow> Some d
                   | None \<Rightarrow> select_one soup (ustr ''.content''));
                extracted =
                  (case content_div of
                     Some d \<Rightarrow> extract_merolagani_content (unicode_db lib) d
                   | None \<Rightarrow> [])
            in if content_div \<noteq> None \<and> extracted \<noteq> [] \<and> length extracted > 100
               then slice_to (clean_merolagani_content extracted) max_length
               else
                 (let result = py_join (ustr '' '') (merolagani_paragraphs lib soup)
                  in slice_to (clean_merolagani_content result) max_length)))\<close>

section \<open>Dispatch by source\<close>

definition extract_body_text :: "'dt env \<Rightarrow> node \<Rightarrow> ustring \<Rightarrow> int \<Rightarrow> ustring" where
  "extract_body_text lib soup link max_length =
     (if py_in (ustr ''merolagani.com'') link then extract_merolagani_content_full lib soup max_length
      else if py_in (ustr ''bikashnews.com'') link then extract_bikashnews_content_full lib soup max_length
      else extract_generic_content lib soup max_length)"

section \<open>Metadata extractors\<close>

text \<open>The first element of a list that \<open>f\<close> maps to a result.\<close>

fun first_some :: "('a \<Rightarrow> 'b option) \<Rightarrow> 'a list \<Rightarrow> 'b option" where
  "first_some f [] = None"
| "first_some f (x # xs) = (case f x of Some y \<Rightarrow> Some y | None \<Rightarrow> first_some f xs)"

text \<open>
  \<open>extract_title\<close>: the loop over \<open>TITLE_SELECTORS\<close>, then the title derived from the
  last segment of the URL's path, then \<open>"Unknown Title"\<close> (reached when \<open>urlparse\<close>
  raises, or when \<open>path_parts\<close> is empty).
\<close>

definition title_of_selector :: "'dt env \<Rightarrow> node \<Rightarrow> ustring \<Rightarrow> ustring option" where
  "title_of_selector lib soup selector =
     (case select_one soup selector of
        Some element \<Rightarrow>
          (let t = clean_text lib element in if t \<noteq> [] \<and> length t > 5 then Some t else None)
      | None \<Rightarrow> None)"

definition title_from_url :: "'dt env \<Rightarrow> ustring \<Rightarrow> ustring" where
  "title_from_url lib link =
     (case urlparse lib link of
        Inl e \<Rightarrow> ustr ''Unknown Title''
      | Inr parsed_url \<Rightarrow>
          (let path_parts = py_split 47 (py_strip_char 47 (path parsed_url))
           in if path_parts \<noteq> []
              then str_title (unicode_db lib) (py_replace 95 (ustr '' '') (py_replace 45 (ustr '' '') (last path_parts)))
              else ustr ''Unknown Title''))"

definition extract_title :: "'dt env \<Rightarrow> node \<Rightarrow> ustring \<Rightarrow> ustring" where
  "extract_title lib soup link =
     (case first_some (title_of_selector lib soup) TITLE_SELECTORS of
        Some t \<Rightarrow> t
      | None \<Rightarrow> title_from_url lib link)"

definition author_of_selector :: "'dt env \<Rightarrow> node \<Rightarrow> ustring \<Rightarrow> ustring option" where
  "author_of_selector lib soup selector =
     (case select_one soup selector of
        Some element \<Rightarrow>
          (let a = clean_text lib element in if a \<noteq> [] \<and> length a < 100 then Some a else None)
      | None \<Rightarrow> None)"

definition extract_author :: "'dt env \<Rightarrow> node \<Rightarrow> ustring option" where
  "extract_author lib soup = first_some (author_of_selector lib soup) AUTHOR_SELECTORS"

text \<open>
  \<open>extract_published_date\<close>: for the first element of a selector, the \<open>datetime\<close>
  attribute or else the \<open>content\<close> attribute if it is not empty, else the element's
  text if it is shorter than 50 characters.
\<close>

definition date_of_selector :: "'dt env \<Rightarrow> node \<Rightarrow> ustring \<Rightarrow> ustring option" where
  "date_of_selector lib soup selector =
     (case select_one soup selector of
        Some element \<Rightarrow>
          (let date_value =
                 (case attr element (ustr ''datetime'') of
                    Some v \<Rightarrow> if v \<noteq> [] then Some v else attr element (ustr ''content'')
                  | None \<Rightarrow> attr element (ustr ''content''));
               date_text = clean_text lib element
           in if date_value \<noteq> None \<and> date_value \<noteq> Some [] then date_value
              else if date_text \<noteq> [] \<and> length date_text < 50 then Some date_text
              else None)
      | None \<Rightarrow> None)"

definition extract_published_date :: "'dt env \<Rightarrow> node \<Rightarrow> ustring option" where
  "extract_published_date lib soup = first_some (date_of_selector lib soup) DATE_SELECTORS"

subsection \<open>The Nepali date parser\<close>

definition NEPALI_MONTHS :: "(ustring \<times> int) list" where
  "NEPALI_MONTHS = [
     ([2348, 2376, 2358, 2366, 2326], 1),
     ([2332, 2375, 2336], 2),
     ([2309, 2360, 2366, 2352], 3),
     ([2360, 2366, 2313, 2344], 4),
     ([2349, 2342, 2380], 5),
     ([2309, 2360, 2379, 2332], 6),
     ([2325, 2366, 2352, 2381, 2340, 2367, 2325], 7),
     ([2350, 2306, 2360, 2367, 2352], 8),
     ([2346, 2369, 2359], 9),
     ([2350, 2366, 2328], 10),
     ([2347, 2366, 2327, 2369, 2344], 11),
     ([2330, 2376, 2340], 12),
     ([2348, 2376, 2360, 2366, 2326], 1),
     ([2349, 2366, 2342, 2381, 2352], 5),
     ([2310, 2358, 2381, 2357, 2367, 2344], 6),
     ([2325, 2366, 2340, 2381, 2340, 2367, 2325], 7),
     ([2350, 2366, 2352, 2381, 2327], 8),
     ([2346, 2380, 2359], 9)]"

definition time_selectors :: "ustring list" where
  \<open>time_selectors = [
     ustr ''time[datetime]'',
     ustr ''.publish-date'',
     ustr ''.published-date'',
     ustr ''.date-published'',
     ustr ''.article-date'',
     ustr ''.post-date'',
     ustr ''.news-date'',
     ustr ''.meta-date'',
     ustr ''.entry-date'',
     ustr ''.timestamp'',
     ustr ''[class*="date"]'',
     ustr ''[class*="time"]'',
     ustr ''.article-meta time'',
     ustr ''.post-meta time'']\<close>

text \<open>\<open>int()\<close> on a run of decimal digits.\<close>

definition py_int :: "ucd \<Rightarrow> ustring \<Rightarrow> int" where
  "py_int u ds = foldl (\<lambda>a c. 10 * a + decimal_value u c) 0 ds"

text \<open>\<open>re.search(pattern, s)\<close>, for a pattern given as its match at a position.\<close>

fun re_search :: "(ustring \<Rightarrow> 'a option) \<Rightarrow> ustring \<Rightarrow> 'a option" where
  "re_search m [] = m []"
| "re_search m (c # cs) = (case m (c # cs) of Some r \<Rightarrow> Some r | None \<Rightarrow> re_search m cs)"

text \<open>
  The relative pattern: digits, blanks, the word for hours or the word for minutes,
  blanks, the word for "ago".  The groups are the amount and the unit.
\<close>

definition unit_hours :: ustring where
  "unit_hours = [2328, 2339, 2381, 2335, 2366]"

definition unit_minutes :: ustring where
  "unit_minutes = [2350, 2367, 2344, 2375, 2335]"

definition word_ago :: ustring where
  "word_ago = [2309, 2327, 2366, 2337, 2367]"

definition match_relative :: "ucd \<Rightarrow> ustring \<Rightarrow> (int \<times> ustring) option" where
  "match_relative u s =
     (let ds = takeWhile (isdecimal u) s;
          r = dropWhile isspace (drop (length ds) s)
      in if ds = [] then None
         else if startswith r unit_hours then
           (if startswith (dropWhile isspace (drop (length unit_hours) r)) word_ago
            then Some (py_int u ds, unit_hours) else None)
         else if startswith r unit_minutes then
           (if startswith (dropWhile isspace (drop (length unit_minutes) r)) word_ago
            then Some (py_int u ds, unit_minutes) else None)
         else None)"

text \<open>
  The absolute pattern \<open>r'(\d+)\s*([^\s,]+)\s*(\d{4})'\<close> at a position, with its
  backtracking: the run of digits and then the run of characters that are neither blank
  nor a comma (44) are tried longest first, until four digits follow.
\<close>

definition match_nepali_date :: "ucd \<Rightarrow> ustring \<Rightarrow> (int \<times> ustring \<times> int) option" where
  "match_nepali_date u s =
     first_some (\<lambda>k.
        (let r = dropWhile isspace (drop k s);
             run = takeWhile (\<lambda>c. \<not> isspace c \<and> c \<noteq> 44) r
         in first_some (\<lambda>l.
              (let r2 = dropWhile isspace (drop l r)
               in if length r2 \<ge> 4 \<and> list_all (isdecimal u) (take 4 r2)
                  then Some (py_int u (take k s), take l r, py_int u (take 4 r2))
                  else None))
              (rev [1..<Suc (length run)])))
       (rev [1..<Suc (length (takeWhile (isdecimal u) s))])"

definition parse_nepali_datetime :: "'dt env \<Rightarrow> ustring \<Rightarrow> exn + 'dt option" where
  "parse_nepali_datetime lib s =
     (let t = py_strip s
      in case re_search (match_relative (unicode_db lib)) t of
           Some (amount, unit) \<Rightarrow>
             (if unit = unit_hours then map_sum id Some (now_minus_hours lib amount)
              else map_sum id Some (now_minus_minutes lib amount))
         | None \<Rightarrow>
             (case re_search (match_nepali_date (unicode_db lib)) t of
                Some (day, month_name, year) \<Rightarrow>
                  (case map_of NEPALI_MONTHS month_name of
                     Some nepali_month \<Rightarrow>
                       (let gregorian_year = (if nepali_month \<le> 3 then year - 56 else year - 57);
                            gregorian_month = (if nepali_month \<le> 9 then nepali_month + 3 else nepali_month - 9);
                            gregorian_year = (if gregorian_month > 12 then gregorian_year + 1 else gregorian_year);
                            gregorian_month = (if gregorian_month > 12 then gregorian_month - 12 else gregorian_month)
                        in case make_datetime lib gregorian_year gregorian_month (min day 28) of
                             Inr d \<Rightarrow> Inr (Some d)
                           | Inl e \<Rightarrow> Inr None)
                   | None \<Rightarrow> Inr None)
              | None \<Rightarrow> Inr None))"

text \<open>A loop that parses texts in turn and returns the first date found.\<close>

fun first_parsed :: "'dt env \<Rightarrow> ustring list \<Rightarrow> exn + 'dt option" where
  "first_parsed lib [] = Inr None"
| "first_parsed lib (t # ts) =
     (case parse_nepali_datetime lib t of
        Inl e \<Rightarrow> Inl e
      | Inr (Some d) \<Rightarrow> Inr (Some d)
      | Inr None \<Rightarrow> first_parsed lib ts)"

text \<open>The loop of \<open>extract_publish_time\<close> over the elements of \<open>time_selectors\<close>.\<close>

fun time_elements :: "'dt env \<Rightarrow> node list \<Rightarrow> exn + 'dt option" where
  "time_elements lib [] = Inr None"
| "time_elements lib (element # rest) =
     (case (case attr element (ustr ''datetime'') of
              Some v \<Rightarrow>
                if v \<noteq> [] then
                  (case fromisoformat lib (py_replace 90 (ustr ''+00:00'') v) of
                     Inr d \<Rightarrow> Some d
                   | Inl e \<Rightarrow> None)
                else None
            | None \<Rightarrow> None) of
        Some d \<Rightarrow> Inr (Some d)
      | None \<Rightarrow>
          (let t = py_strip (get_text element)
           in if t \<noteq> [] then
                (case parse_nepali_datetime lib t of
                   Inl e \<Rightarrow> Inl e
                 | Inr (Some d) \<Rightarrow> Inr (Some d)
                 | Inr None \<Rightarrow> time_elements lib rest)
              else time_elements lib rest))"

definition extract_nepalipaisa_time :: "'dt env \<Rightarrow> node \<Rightarrow> exn + 'dt option" where
  "extract_nepalipaisa_time lib soup =
     first_parsed lib (map get_text (select soup (ustr ''.article-meta, .post-meta, .news-meta'')))"

definition extract_bikashnews_time :: "'dt env \<Rightarrow> node \<Rightarrow> exn + 'dt option" where
  "extract_bikashnews_time lib soup =
     first_parsed lib (map get_text (select soup (ustr ''.date, .published, .article-date'')))"

definition extract_merolagani_time :: "'dt env \<Rightarrow> node \<Rightarrow> exn + 'dt option" where
  "extract_merolagani_time lib soup =
     first_parsed lib (map get_text (select soup (ustr ''.time, .date, .published'')))"

definition extract_time_from_text :: "'dt env \<Rightarrow> ustring \<Rightarrow> exn + 'dt option" where
  "extract_time_from_text lib s = first_parsed lib (take 10 (py_split 10 s))"

definition extract_publish_time :: "'dt env \<Rightarrow> node \<Rightarrow> ustring \<Rightarrow> exn + 'dt option" where
  "extract_publish_time lib soup link =
     (case urlparse lib link of
        Inl e \<Rightarrow> Inl e
      | Inr parsed_url \<Rightarrow>
          (let domain = str_lower (unicode_db lib) (netloc parsed_url)
           in case time_elements lib (concat (map (select soup) time_selectors)) of
                Inl e \<Rightarrow> Inl e
              | Inr (Some d) \<Rightarrow> Inr (Some d)
              | Inr None \<Rightarrow>
                  (if py_in (ustr ''nepalipaisa.com'') domain then extract_nepalipaisa_time lib soup
                   else if py_in (ustr ''bikashnews.com'') domain then extract_bikashnews_time lib soup
                   else if py_in (ustr ''merolagani.com'') domain then extract_merolagani_time lib soup
                   else extract_time_from_text lib (get_text soup))))"

section \<open>The article record and \<open>parse_html_content\<close>\<close>

datatype status_code = Success | Failed | Fallback_failed | Fallback_error | Fallback_unavailable

datatype fetch_kind = Standard | Browser_fallback

text \<open>
  The result dictionary.  \<open>parser_method\<close> is absent from what \<open>parse_html_content\<close>
  returns, and \<open>fallback_error\<close> is present only after a failed render.
\<close>

record article =
  url :: ustring
  title :: ustring
  published :: "ustring option"
  author :: "ustring option"
  body_text :: ustring
  parser_status :: status_code
  parser_method :: "fetch_kind option"
  fallback_error :: "ustring option"

text \<open>The body of the \<open>try\<close> block of \<open>parse_html_content\<close>.\<close>

definition parse_html_body :: "'dt env \<Rightarrow> ustring \<Rightarrow> ustring \<Rightarrow> int \<Rightarrow> exn + article" where
  "parse_html_body lib html link max_body_length =
     (case BeautifulSoup lib html of
        Inl e \<Rightarrow> Inl e
      | Inr soup \<Rightarrow>
          (let title = extract_title lib soup link;
               author = extract_author lib soup
           in case extract_publish_time lib soup link of
                Inl e \<Rightarrow> Inl e
              | Inr publish_time \<Rightarrow>
                  (let published = (case publish_time of
                                      Some d \<Rightarrow> Some (isoformat lib d)
                                    | None \<Rightarrow> extract_published_date lib soup);
                       body_text = extract_body_text lib soup link max_body_length;
                       has_nepali = (if body_text \<noteq> [] then list_ex is_devanagari body_text else False);
                       is_substantial = (if body_text \<noteq> [] then length (py_strip body_text) > 200 else False);
                       parser_status = (if body_text \<noteq> [] \<and> is_substantial \<and> has_nepali
                                        then Success else Failed)
                   in Inr \<lparr>url = link, title = title, published = published, author = author,
                           body_text = body_text, parser_status = parser_status,
                           parser_method = None, fallback_error = None\<rparr>)))"

definition parse_html_content :: "'dt env \<Rightarrow> ustring \<Rightarrow> ustring \<Rightarrow> int \<Rightarrow> article" where
  "parse_html_content lib html link max_body_length =
     (case parse_html_body lib html link max_body_length of
        Inr result \<Rightarrow> result
      | Inl e \<Rightarrow>
          \<lparr>url = link, title = ustr ''Parse Error'', published = None, author = None,
           body_text = [], parser_status = Failed, parser_method = None, fallback_error = None\<rparr>)"

section \<open>The orchestrator\<close>

text \<open>
  The calls that matter to the routing are recorded in a trace, in the order they are
  made.  A computation takes the trace so far and returns its result, or the exception
  it raised, with the extended trace.
\<close>

datatype event =
    Call_download_article ustring
  | Call_extract_with_browser_rendering ustring
  | Call_fetch_rendered_html ustring

type_synonym 'a io = "event list \<Rightarrow> (exn + 'a) \<times> event list"

definition io_return :: "'a \<Rightarrow> 'a io" where
  "io_return x tr = (Inr x, tr)"

definition io_raise :: "exn \<Rightarrow> 'a io" where
  "io_raise e tr = (Inl e, tr)"

definition io_call :: "event \<Rightarrow> exn + 'a \<Rightarrow> 'a io" where
  "io_call ev r tr = (r, tr @ [ev])"

definition io_bind :: "'a io \<Rightarrow> ('a \<Rightarrow> 'b io) \<Rightarrow> 'b io" where
  "io_bind m f tr = (case m tr of (Inl e, tr') \<Rightarrow> (Inl e, tr') | (Inr x, tr') \<Rightarrow> f x tr')"

definition io_try_except :: "'a io \<Rightarrow> (exn \<Rightarrow> 'a io) \<Rightarrow> 'a io" where
  "io_try_except m handler tr =
     (case m tr of (Inl e, tr') \<Rightarrow> handler e tr' | (Inr x, tr') \<Rightarrow> (Inr x, tr'))"

text \<open>\<open>download_article\<close> logs and re-raises whatever the session raises.\<close>

definition download_article :: "'dt env \<Rightarrow> ustring \<Rightarrow> ustring io" where
  "download_article lib link =
     io_try_except (io_call (Call_download_article link) (http_get lib link)) (\<lambda>e. io_raise e)"

definition fetch_rendered_html :: "'dt env \<Rightarrow> ustring \<Rightarrow> ustring io" where
  "fetch_rendered_html lib link =
     io_call (Call_fetch_rendered_html link)
       (if \<not> PLAYWRIGHT_AVAILABLE lib
        then Inl (Exn (ustr ''Playwright is not installed. Install with:'' @ [10] @
                       ustr ''pip install playwright'' @ [10] @ ustr ''playwright install''))
        else render_page lib link)"

definition extract_with_browser_rendering :: "'dt env \<Rightarrow> ustring \<Rightarrow> int \<Rightarrow> article io" where
  "extract_with_browser_rendering lib link max_body_length =
     io_bind (io_call (Call_extract_with_browser_rendering link) (Inr ()))
       (\<lambda>_. if PLAYWRIGHT_AVAILABLE lib then
               io_try_except
                 (io_bind (fetch_rendered_html lib link)
                    (\<lambda>rendered_html.
                       (let result = parse_html_content lib rendered_html link max_body_length;
                            result = result\<lparr>parser_method := Some Browser_fallback\<rparr>
                        in if parser_status result = Success then io_return result
                           else io_return (result\<lparr>parser_status := Fallback_failed\<rparr>))))
                 (\<lambda>e. io_return
                    \<lparr>url = link, title = ustr ''Browser Rendering Error'', published = None,
                     author = None, body_text = [], parser_status = Fallback_error,
                     parser_method = Some Browser_fallback, fallback_error = Some (message e)\<rparr>)
             else io_return
                    \<lparr>url = link, title = ustr ''Browser Rendering Unavailable'', published = None,
                     author = None, body_text = [], parser_status = Fallback_unavailable,
                     parser_method = Some Browser_fallback, fallback_error = None\<rparr>)"

text \<open>
  The \<open>try\<close> block of \<open>extract_article_content\<close> either returns the standard result
  (\<open>Some\<close>) or is left, by falling through or by an exception, for the browser fallback
  (\<open>None\<close>).
\<close>

definition standard_attempt :: "'dt env \<Rightarrow> ustring \<Rightarrow> int \<Rightarrow> article option io" where
  "standard_attempt lib link max_body_length =
     io_try_except
       (io_bind (download_article lib link)
          (\<lambda>html.
             (let result = parse_html_content lib html link max_body_length
              in if parser_status result = Success
                 then io_return (Some (result\<lparr>parser_method := Some Standard\<rparr>))
                 else io_return None)))
       (\<lambda>e. io_return None)"

definition use_browser_directly :: "ustring \<Rightarrow> bool" where
  "use_browser_directly link = list_ex (\<lambda>domain. py_in domain link) JS_HEAVY_DOMAINS"

definition extract_article_content :: "'dt env \<Rightarrow> ustring \<Rightarrow> int \<Rightarrow> article io" where
  "extract_article_content lib link max_body_length =
     (if use_browser_directly link then extract_with_browser_rendering lib link max_body_length
      else io_bind (standard_attempt lib link max_body_length)
                (\<lambda>returned. case returned of
                     Some result \<Rightarrow> io_return result
                   | None \<Rightarrow> extract_with_browser_rendering lib link max_body_length))"

section \<open>Documents and environments of the examples\<close>

text \<open>
  A text node, an element \<open><nm k="v" ...>txt</nm>\<close> whose only child is a text node, and
  a document given by the matches of its selectors, its elements and its text nodes in
  document order, and its text.
\<close>

definition string_node :: "ustring \<Rightarrow> node" where
  "string_node txt =
     Node None (Some txt) txt txt (py_strip txt) (py_strip txt) (py_strip txt)
       (\<lambda>_. None) (\<lambda>_. []) (\<lambda>_. []) [] []"

definition text_element :: "ustring \<Rightarrow> (ustring \<times> ustring) list \<Rightarrow> ustring \<Rightarrow> node" where
  "text_element nm attrs txt =
     Node (Some nm) (Some txt)
       (ustr ''<'' @ nm @ concat (map (\<lambda>(k, v). [32] @ k @ [61, 34] @ v @ [34]) attrs) @ ustr ''>'' @
        txt @ ustr ''</'' @ nm @ ustr ''>'')
       txt (py_strip txt) (py_strip txt) (py_strip txt)
       (map_of attrs) (\<lambda>_. []) (\<lambda>_. []) [string_node txt] [(txt, Some nm)]"

definition document ::
  "(ustring \<times> node list) list \<Rightarrow> node list \<Rightarrow> (ustring \<times> ustring option) list \<Rightarrow> ustring \<Rightarrow> node" where
  "document selects elements strings txt =
     Node (Some (ustr ''[document]'')) None txt txt (py_strip txt) (py_strip txt) (py_strip txt)
       (\<lambda>_. None)
       (\<lambda>selector. case map_of selects selector of Some ns \<Rightarrow> ns | None \<Rightarrow> [])
       (\<lambda>names. filter (\<lambda>e. list_ex (\<lambda>n. tag_name e = Some n) names) elements)
       elements strings"

text \<open>
  A stand-in for \<open>urllib.parse.urlparse\<close> on plain URLs \<open>scheme://host/path?query#fragment\<close>:
  the host runs from the first \<open>://\<close> to the next \<open>/\<close>, \<open>?\<close> or \<open>#\<close>, the path from there
  to the next \<open>?\<close> or \<open>#\<close>.
\<close>

fun after_scheme :: "ustring \<Rightarrow> ustring" where
  "after_scheme [] = []"
| "after_scheme (c # cs) = (if startswith (c # cs) (ustr ''://'') then drop 2 cs else after_scheme cs)"

definition url_host :: "ustring \<Rightarrow> ustring" where
  "url_host link = takeWhile (\<lambda>c. c \<notin> set [47, 63, 35]) (after_scheme link)"

definition simple_urlparse :: "ustring \<Rightarrow> exn + url_parts" where
  "simple_urlparse link =
     (if py_in (ustr ''://'') link
      then Inr \<lparr>netloc = url_host link,
                path = takeWhile (\<lambda>c. c \<notin> set [63, 35]) (drop (length (url_host link)) (after_scheme link))\<rparr>
      else Inr \<lparr>netloc = [], path = takeWhile (\<lambda>c. c \<notin> set [63, 35]) link\<rparr>)"

text \<open>
  Stand-ins for the Unicode-dependent string operations on the texts of the examples,
  whose cased letters are all ASCII and whose digits are ASCII or Devanagari (U+0966 to
  U+096F): there \<open>str.lower()\<close>, \<open>str.title()\<close>, \<open>\d\<close> and \<open>int()\<close> are as follows.  In
  \<open>str.title()\<close> a cased letter is upper-cased after an uncased character (or at the
  start) and lower-cased after a cased one.
\<close>

definition is_upper :: "int \<Rightarrow> bool" where
  "is_upper c \<longleftrightarrow> 65 \<le> c \<and> c \<le> 90"

definition is_lower :: "int \<Rightarrow> bool" where
  "is_lower c \<longleftrightarrow> 97 \<le> c \<and> c \<le> 122"

definition lower_char :: "int \<Rightarrow> int" where
  "lower_char c = (if is_upper c then c + 32 else c)"

definition upper_char :: "int \<Rightarrow> int" where
  "upper_char c = (if is_lower c then c - 32 else c)"

definition ascii_lower :: "ustring \<Rightarrow> ustring" where
  "ascii_lower s = map lower_char s"

fun title_from :: "bool \<Rightarrow> ustring \<Rightarrow> ustring" where
  "title_from previous_is_cased [] = []"
| "title_from previous_is_cased (c # cs) =
     (if is_upper c \<or> is_lower c
      then (if previous_is_cased then lower_char c else upper_char c) # title_from True cs
      else c # title_from False cs)"

definition ascii_title :: "ustring \<Rightarrow> ustring" where
  "ascii_title s = title_from False s"

definition is_digit :: "int \<Rightarrow> bool" where
  "is_digit c \<longleftrightarrow> (48 \<le> c \<and> c \<le> 57) \<or> (2406 \<le> c \<and> c \<le> 2415)"

definition digit_value :: "int \<Rightarrow> int" where
  "digit_value c = (if c \<le> 57 then c - 48 else c - 2406)"

definition ascii_ucd :: ucd where
  "ascii_ucd =
     \<lparr>str_lower = ascii_lower, str_title = ascii_title, isdecimal = is_digit,
      decimal_value = digit_value\<rparr>"

text \<open>
  An environment for the examples: the network and the browser answer as given, every
  page parses to the given document, texts are already in NFC, the string operations are
  the stand-ins above, and no example reaches a \<open>datetime\<close> operation (each raises).
\<close>

definition example_env :: "bool \<Rightarrow> exn + ustring \<Rightarrow> exn + ustring \<Rightarrow> node \<Rightarrow> unit env" where
  "example_env playwright response rendered doc =
     \<lparr>PLAYWRIGHT_AVAILABLE = playwright,
      http_get = (\<lambda>_. response),
      render_page = (\<lambda>_. rendered),
      BeautifulSoup = (\<lambda>_. Inr doc),
      normalize_NFC = (\<lambda>s. s),
      unicode_db = ascii_ucd,
      urlparse = simple_urlparse,
      fromisoformat = (\<lambda>_. Inl (Exn (ustr ''ValueError''))),
      now_minus_hours = (\<lambda>_. Inl (Exn (ustr ''OverflowError''))),
      now_minus_minutes = (\<lambda>_. Inl (Exn (ustr ''OverflowError''))),
      make_datetime = (\<lambda>_ _ _. Inl (Exn (ustr ''ValueError''))),
      isoformat = (\<lambda>_. [])\<rparr>"

text \<open>The empty page \<open><html><head></head><body></body></html>\<close>.\<close>

definition empty_page :: node where
  "empty_page = document [] [] [] []"

text \<open>The page \<open><html><head><title>t</title></head><body></body></html>\<close>.\<close>

definition title_page :: "ustring \<Rightarrow> node" where
  "title_page t =
     (let el = text_element (ustr ''title'') [] t
      in document [(ustr ''title'', [el])] [el] [(t, Some (ustr ''title''))] t)"

text \<open>
  A Nepali sentence of 70 characters with a dateline ("Kathmandu : Nepal Rastra Bank has
  published the new monetary policy today"), and three copies of it, 212 characters.
\<close>

definition sample_sentence :: ustring where
  "sample_sentence =
     [2325, 2366, 2336, 2350, 2366, 2337, 2380, 2306, 32, 58, 32, 2344, 2375, 2346, 2366, 2354,
      32, 2352, 2366, 2359, 2381, 2335, 2381, 2352, 32, 2348, 2376, 2306, 2325, 2354, 2375, 32,
      2310, 2332, 32, 2344, 2351, 2366, 2305, 32, 2350, 2380, 2342, 2381, 2352, 2367, 2325, 32,
      2344, 2368, 2340, 2367, 32, 2360, 2366, 2352, 2381, 2357, 2332, 2344, 2367, 2325, 32,
      2327, 2352, 2375, 2325, 2379, 32, 2331]"

definition sample_text :: ustring where
  "sample_text = sample_sentence @ [32] @ sample_sentence @ [32] @ sample_sentence"

text \<open>
  The dictionary that \<open>extract_with_browser_rendering\<close> returns, as a function of the
  environment (see \<open>extract_with_browser_rendering_run\<close> below).
\<close>

definition browser_result :: "'dt env \<Rightarrow> ustring \<Rightarrow> int \<Rightarrow> article" where
  "browser_result lib link m =
     (if PLAYWRIGHT_AVAILABLE lib then
        (case render_page lib link of
           Inl e \<Rightarrow>
             \<lparr>url = link, title = ustr ''Browser Rendering Error'', published = None,
              author = None, body_text = [], parser_status = Fallback_error,
              parser_method = Some Browser_fallback, fallback_error = Some (message e)\<rparr>
         | Inr html \<Rightarrow>
             (let result = (parse_html_content lib html link m)\<lparr>parser_method := Some Browser_fallback\<rparr>
              in if parser_status result = Success then result
                 else result\<lparr>parser_status := Fallback_failed\<rparr>))
      else
        \<lparr>url = link, title = ustr ''Browser Rendering Unavailable'', published = None,
         author = None, body_text = [], parser_status = Fallback_unavailable,
         parser_method = Some Browser_fallback, fallback_error = None\<rparr>)"

text \<open>The environments and links of the orchestrator examples.\<close>

definition standard_env :: "unit env" where
  "standard_env = example_env False (Inr (ustr ''<html>'')) (Inl (Exn [])) (title_page sample_text)"

definition failing_env :: "unit env" where
  "failing_env =
     example_env True (Inl (Exn (ustr ''Connection refused'')))
       (Inl (Exn (ustr ''Timeout 30000ms exceeded''))) empty_page"

definition no_browser_env :: "unit env" where
  "no_browser_env = example_env False (Inl (Exn (ustr ''Connection refused''))) (Inl (Exn [])) empty_page"

definition plain_link :: ustring where
  "plain_link = ustr ''https://example.com/news/1''"

definition merolagani_link :: ustring where
  "merolagani_link = ustr ''https://www.merolagani.com/NewsDetail.aspx?newsID=1''"

definition referrer_link :: ustring where
  "referrer_link = ustr ''https://example.com/news?ref=merolagani.com''"

definition capital_host_link :: ustring where
  "capital_host_link = ustr ''https://www.MEROLAGANI.COM/NewsDetail.aspx?newsID=1''"

text \<open>
  The page \<open><html><head></head><body><span class="date">Yesterday</span></body></html>\<close>,
  fetched and rendered alike.
\<close>

definition date_element :: node where
  "date_element = text_element (ustr ''span'') [(ustr ''class'', ustr ''date'')] (ustr ''Yesterday'')"

definition date_page :: node where
  \<open>date_page =
     document [(ustr ''[class*="date"]'', [date_element]), (ustr ''.date'', [date_element])]
       [date_element] [(ustr ''Yesterday'', Some (ustr ''span''))] (ustr ''Yesterday'')\<close>

definition date_env :: "unit env" where
  "date_env = example_env True (Inr (ustr ''<html>'')) (Inr (ustr ''<html>'')) date_page"

text \<open>
  What every ISO-8601 calendar date or date and time in the extended format starts with,
  the output of \<open>datetime.isoformat()\<close> included: \<open>YYYY-MM-DD\<close>, then nothing or a \<open>T\<close> or
  a space.
\<close>

definition is_ascii_digit :: "int \<Rightarrow> bool" where
  "is_ascii_digit c \<longleftrightarrow> 48 \<le> c \<and> c \<le> 57"

definition iso8601_date_prefix :: "ustring \<Rightarrow> bool" where
  "iso8601_date_prefix s \<longleftrightarrow>
     length s \<ge> 10 \<and> list_all is_ascii_digit (take 4 s) \<and> s ! 4 = 45 \<and>
     list_all is_ascii_digit (take 2 (drop 5 s)) \<and> s ! 7 = 45 \<and>
     list_all is_ascii_digit (take 2 (drop 8 s)) \<and>
     (length s = 10 \<or> s ! 10 = 84 \<or> s ! 10 = 32)"

text \<open>
  An element \<open><nm k="v" ...>child</nm>\<close> with one child element, and the matches of the
  selectors inside it.
\<close>

definition wrapper_element ::
  "ustring \<Rightarrow> (ustring \<times> ustring) list \<Rightarrow> node \<Rightarrow> (ustring \<times> node list) list \<Rightarrow> node" where
  "wrapper_element nm attrs child selects =
     Node (Some nm) (node_string child)
       (ustr ''<'' @ nm @ concat (map (\<lambda>(k, v). [32] @ k @ [61, 34] @ v @ [34]) attrs) @ ustr ''>'' @
        markup child @ ustr ''</'' @ nm @ ustr ''>'')
       (get_text child) (get_text_strip child) (get_text_space child) (get_text_newline child)
       (map_of attrs)
       (\<lambda>selector. case map_of selects selector of Some ns \<Rightarrow> ns | None \<Rightarrow> [])
       (\<lambda>names. filter (\<lambda>e. list_ex (\<lambda>n. tag_name e = Some n) names) (child # descendants child))
       (child # descendants child) (text_nodes child)"

text \<open>The page \<open><html><head></head><body><p>t</p></body></html>\<close>.\<close>

definition paragraph_page :: "ustring \<Rightarrow> node" where
  "paragraph_page t =
     (let p = text_element (ustr ''p'') [] t
      in document [] [p] [(t, Some (ustr ''p''))] t)"

text \<open>The page \<open><html><head></head><body><div class="content"><p>t</p></div></body></html>\<close>.\<close>

definition content_page :: "ustring \<Rightarrow> node" where
  \<open>content_page t =
     (let p = text_element (ustr ''p'') [] t;
          d = wrapper_element (ustr ''div'') [(ustr ''class'', ustr ''content'')] p
                [(ustr ''div[class*="content"] p'', [p])]
      in document
           [(ustr ''div[class*="content"]'', [d]), (ustr ''.content'', [d]),
            (ustr ''div[class*="content"] p'', [p])]
           [d, p] [(t, Some (ustr ''p''))] t)\<close>

text \<open>A navigation phrase followed by the sample sentence, 105 characters, and two copies
  of the sample sentence, 141 characters.\<close>

definition menu_text :: ustring where
  "menu_text = ustr ''Home News Latest News Stock Market '' @ sample_sentence"

definition article_text :: ustring where
  "article_text = sample_sentence @ [32] @ sample_sentence"

section \<open>Whitespace normalisation is idempotent\<close>

lemma sub_whitespace_no_leading_space:
  "xs = [] \<or> \<not> isspace (hd xs) \<Longrightarrow> dropWhile isspace (sub_whitespace xs) = sub_whitespace xs"
  by (cases xs) auto

lemma dropWhile_isspace_head: "dropWhile isspace xs = [] \<or> \<not> isspace (hd (dropWhile isspace xs))"
  by (metis hd_dropWhile)

lemma isspace_space: "isspace 32"
  by (simp add: isspace_def)

text \<open>
  C9.  Applying the whitespace normaliser of \<open>clean_article_content\<close>
  (\<open>re.sub(r'\s+', ' ', text)\<close>) twice gives the same string as applying it once,
  for every input string.
\<close>

theorem sub_whitespace_idempotent: "sub_whitespace (sub_whitespace s) = sub_whitespace s"
proof (induction s rule: sub_whitespace.induct)
  case 1
  show ?case by simp
next
  case (2 c cs)
  show ?case
  proof (cases "isspace c")
    case True
    let ?r = "dropWhile isspace cs"
    have "dropWhile isspace (sub_whitespace ?r) = sub_whitespace ?r"
      by (rule sub_whitespace_no_leading_space) (rule dropWhile_isspace_head)
    with True 2 show ?thesis by (simp add: isspace_space)
  next
    case False
    with 2 show ?thesis by simp
  qed
qed

theorem sub_whitespace_idempotent_witness:
  "sub_whitespace (sub_whitespace [97, 32, 9, 10, 98]) = [97, 32, 98]"
  using sub_whitespace_idempotent [of "[97, 32, 9, 10, 98]"]
  by (simp add: isspace_def)

section \<open>The orchestrator: what a run returns and which calls it makes\<close>

lemma py_strip_Nil: "py_strip [] = []"
  by (simp add: py_strip_def)

lemma parse_html_content_status:
  "parser_status (parse_html_content lib html link m) = Success \<longleftrightarrow>
     200 < length (py_strip (body_text (parse_html_content lib html link m))) \<and>
     list_ex is_devanagari (body_text (parse_html_content lib html link m))"
  by (auto simp: parse_html_content_def parse_html_body_def Let_def py_strip_Nil
      split: sum.splits option.splits)

lemma parse_html_content_raised:
  "parse_html_body lib html link m = Inl e \<Longrightarrow>
     parser_status (parse_html_content lib html link m) = Failed"
  by (simp add: parse_html_content_def)

lemma extract_with_browser_rendering_run:
  "extract_with_browser_rendering lib link m tr =
     (Inr (browser_result lib link m),
      tr @ Call_extract_with_browser_rendering link #
        (if PLAYWRIGHT_AVAILABLE lib then [Call_fetch_rendered_html link] else []))"
  by (auto simp: extract_with_browser_rendering_def browser_result_def fetch_rendered_html_def
      io_bind_def io_call_def io_try_except_def io_return_def Let_def split: sum.splits)

lemma standard_attempt_run:
  "standard_attempt lib link m tr =
     (Inr (case http_get lib link of
             Inl e \<Rightarrow> None
           | Inr html \<Rightarrow>
               (if parser_status (parse_html_content lib html link m) = Success
                then Some ((parse_html_content lib html link m)\<lparr>parser_method := Some Standard\<rparr>)
                else None)),
      tr @ [Call_download_article link])"
  by (auto simp: standard_attempt_def download_article_def
      io_bind_def io_call_def io_try_except_def io_return_def io_raise_def Let_def split: sum.splits)

lemma extract_article_content_direct:
  "use_browser_directly link \<Longrightarrow>
     extract_article_content lib link m tr = extract_with_browser_rendering lib link m tr"
  by (simp add: extract_article_content_def)

lemma extract_article_content_standard:
  "\<not> use_browser_directly link \<Longrightarrow>
     extract_article_content lib link m tr =
       (case http_get lib link of
          Inl e \<Rightarrow> extract_with_browser_rendering lib link m (tr @ [Call_download_article link])
        | Inr html \<Rightarrow>
            (if parser_status (parse_html_content lib html link m) = Success
             then (Inr ((parse_html_content lib html link m)\<lparr>parser_method := Some Standard\<rparr>),
                   tr @ [Call_download_article link])
             else extract_with_browser_rendering lib link m (tr @ [Call_download_article link])))"
  by (auto simp: extract_article_content_def standard_attempt_run io_bind_def io_return_def
      split: sum.splits)

lemma browser_result_status:
  "parser_status (browser_result lib link m) = Success \<longleftrightarrow>
     200 < length (py_strip (body_text (browser_result lib link m))) \<and>
     list_ex is_devanagari (body_text (browser_result lib link m))"
  using parse_html_content_status [of lib _ link m]
  by (auto simp: browser_result_def Let_def py_strip_Nil split: sum.splits)

lemma browser_result_method: "parser_method (browser_result lib link m) = Some Browser_fallback"
  by (auto simp: browser_result_def Let_def split: sum.splits)

lemma browser_result_unavailable:
  "\<not> PLAYWRIGHT_AVAILABLE lib \<Longrightarrow> parser_status (browser_result lib link m) = Fallback_unavailable"
  by (simp add: browser_result_def)

lemma browser_result_error:
  "PLAYWRIGHT_AVAILABLE lib \<Longrightarrow> render_page lib link = Inl e \<Longrightarrow>
     parser_status (browser_result lib link m) = Fallback_error \<and>
     fallback_error (browser_result lib link m) = Some (message e)"
  by (simp add: browser_result_def)

lemma browser_result_failed:
  "PLAYWRIGHT_AVAILABLE lib \<Longrightarrow> render_page lib link = Inr html \<Longrightarrow>
     parser_status (parse_html_content lib html link m) \<noteq> Success \<Longrightarrow>
     parser_status (browser_result lib link m) = Fallback_failed"
  by (simp add: browser_result_def Let_def)

lemma use_browser_directly_iff:
  "use_browser_directly link \<longleftrightarrow> (\<exists>d \<in> set JS_HEAVY_DOMAINS. \<exists>before after. link = before @ d @ after)"
  by (auto simp: use_browser_directly_def py_in_def list_ex_iff sublist_def)

text \<open>The runs of the examples.\<close>

lemma plain_link_not_js_heavy: "\<not> use_browser_directly plain_link"
  by code_simp

lemma standard_example_run:
  "extract_article_content standard_env plain_link 5000 [] =
     (Inr \<lparr>url = plain_link, title = sample_text, published = None, author = None,
            body_text = sample_text, parser_status = Success,
            parser_method = Some Standard, fallback_error = None\<rparr>,
      [Call_download_article plain_link])"
  by code_simp

lemma sample_text_stripped_length: "length (py_strip sample_text) = 212"
  by code_simp

lemma sample_text_devanagari: "list_ex is_devanagari sample_text"
  by code_simp

text \<open>
  C1.  For every record that \<open>parse_html_content\<close> or \<open>extract_article_content\<close> (standard
  path or browser path) returns, \<open>parser_status\<close> is \<open>success\<close> if and only if
  \<open>len(body_text.strip()) > 200\<close> and \<open>body_text\<close> has a character in U+0900 to U+097F.
\<close>

theorem parser_status_success_iff:
  "(parser_status (parse_html_content lib html link m) = Success \<longleftrightarrow>
      200 < length (py_strip (body_text (parse_html_content lib html link m))) \<and>
      list_ex is_devanagari (body_text (parse_html_content lib html link m))) \<and>
   (\<exists>r tr. extract_article_content lib link m [] = (Inr r, tr) \<and>
      (parser_status r = Success \<longleftrightarrow>
         200 < length (py_strip (body_text r)) \<and> list_ex is_devanagari (body_text r)))"
proof
  show "parser_status (parse_html_content lib html link m) = Success \<longleftrightarrow>
      200 < length (py_strip (body_text (parse_html_content lib html link m))) \<and>
      list_ex is_devanagari (body_text (parse_html_content lib html link m))"
    by (rule parse_html_content_status)
next
  show "\<exists>r tr. extract_article_content lib link m [] = (Inr r, tr) \<and>
      (parser_status r = Success \<longleftrightarrow>
         200 < length (py_strip (body_text r)) \<and> list_ex is_devanagari (body_text r))"
  proof (cases "use_browser_directly link")
    case True
    then show ?thesis
      using browser_result_status [of lib link m]
      by (simp add: extract_article_content_direct extract_with_browser_rendering_run)
  next
    case False
    show ?thesis
    proof (cases "http_get lib link")
      case (Inl e)
      with False show ?thesis
        using browser_result_status [of lib link m]
        by (simp add: extract_article_content_standard extract_with_browser_rendering_run)
    next
      case (Inr html)
      with False show ?thesis
        using browser_result_status [of lib link m] parse_html_content_status [of lib html link m]
        by (simp add: extract_article_content_standard extract_with_browser_rendering_run)
    qed
  qed
qed

theorem parser_status_success_iff_witness:
  "\<exists>r tr. extract_article_content standard_env plain_link 5000 [] = (Inr r, tr) \<and>
     parser_status r = Success \<and> length (py_strip (body_text r)) = 212 \<and>
     list_ex is_devanagari (body_text r)"
proof -
  from parser_status_success_iff [of standard_env "[]" plain_link 5000]
  obtain r tr where run: "extract_article_content standard_env plain_link 5000 [] = (Inr r, tr)"
    and iff: "parser_status r = Success \<longleftrightarrow>
                200 < length (py_strip (body_text r)) \<and> list_ex is_devanagari (body_text r)"
    by blast
  from run have body: "body_text r = sample_text"
    by (auto simp: standard_example_run)
  with iff have "parser_status r = Success"
    by (simp add: sample_text_stripped_length sample_text_devanagari)
  with run body show ?thesis
    by (simp add: sample_text_stripped_length sample_text_devanagari)
qed

text \<open>
  C2.  \<open>extract_article_content\<close> never raises: every run returns a result dictionary.  A
  transport exception or an exception in the parse on the standard path falls through to
  browser rendering.  On the browser path, a rendered page that fails validation gives
  \<open>fallback_failed\<close>, an exception of the render gives \<open>fallback_error\<close> with the message
  in the result, and a missing Playwright gives \<open>fallback_unavailable\<close>.
\<close>

theorem extract_article_content_never_raises:
  "\<exists>r tr. extract_article_content lib link m [] = (Inr r, tr) \<and>
     (\<not> use_browser_directly link \<longrightarrow>
        (\<forall>e. http_get lib link = Inl e \<longrightarrow>
           (Inr r, tr) = extract_with_browser_rendering lib link m [Call_download_article link]) \<and>
        (\<forall>html e. http_get lib link = Inr html \<longrightarrow> parse_html_body lib html link m = Inl e \<longrightarrow>
           (Inr r, tr) = extract_with_browser_rendering lib link m [Call_download_article link])) \<and>
     (parser_method r = Some Browser_fallback \<longrightarrow>
        (\<not> PLAYWRIGHT_AVAILABLE lib \<longrightarrow> parser_status r = Fallback_unavailable) \<and>
        (PLAYWRIGHT_AVAILABLE lib \<longrightarrow>
           (\<forall>e. render_page lib link = Inl e \<longrightarrow>
              parser_status r = Fallback_error \<and> fallback_error r = Some (message e)) \<and>
           (\<forall>html. render_page lib link = Inr html \<longrightarrow>
              parser_status (parse_html_content lib html link m) \<noteq> Success \<longrightarrow>
              parser_status r = Fallback_failed)))"
proof (cases "use_browser_directly link")
  case True
  then show ?thesis
    by (simp add: extract_article_content_direct extract_with_browser_rendering_run
        browser_result_unavailable browser_result_error browser_result_failed)
next
  case False
  show ?thesis
  proof (cases "http_get lib link")
    case (Inl e)
    with False show ?thesis
      by (simp add: extract_article_content_standard extract_with_browser_rendering_run
          browser_result_unavailable browser_result_error browser_result_failed)
  next
    case (Inr html)
    with False show ?thesis
      by (auto simp: extract_article_content_standard extract_with_browser_rendering_run
          browser_result_unavailable browser_result_error browser_result_failed
          parse_html_content_raised)
  qed
qed

theorem extract_article_content_never_raises_witness:
  "\<exists>r tr. extract_article_content failing_env plain_link 5000 [] = (Inr r, tr) \<and>
     tr = [Call_download_article plain_link, Call_extract_with_browser_rendering plain_link,
           Call_fetch_rendered_html plain_link] \<and>
     parser_method r = Some Browser_fallback \<and>
     parser_status r = Fallback_error \<and>
     fallback_error r = Some (ustr ''Timeout 30000ms exceeded'')"
proof -
  have get: "http_get failing_env plain_link = Inl (Exn (ustr ''Connection refused''))"
    and pw: "PLAYWRIGHT_AVAILABLE failing_env"
    and render: "render_page failing_env plain_link = Inl (Exn (ustr ''Timeout 30000ms exceeded''))"
    by (simp_all add: failing_env_def example_env_def)
  from extract_article_content_never_raises [of failing_env plain_link 5000]
  obtain r tr where run: "extract_article_content failing_env plain_link 5000 [] = (Inr r, tr)"
    and through: "(Inr r, tr) =
        extract_with_browser_rendering failing_env plain_link 5000 [Call_download_article plain_link]"
    and browser: "parser_method r = Some Browser_fallback \<longrightarrow>
        parser_status r = Fallback_error \<and> fallback_error r = Some (ustr ''Timeout 30000ms exceeded'')"
    using plain_link_not_js_heavy get pw render by fastforce
  from through pw have "tr = [Call_download_article plain_link,
      Call_extract_with_browser_rendering plain_link, Call_fetch_rendered_html plain_link]"
    and "parser_method r = Some Browser_fallback"
    by (simp_all add: extract_with_browser_rendering_run browser_result_method)
  with run browser show ?thesis by simp
qed

lemma merolagani_link_js_heavy: "use_browser_directly merolagani_link"
  by code_simp

lemma referrer_link_js_heavy: "use_browser_directly referrer_link"
  by code_simp

lemma direct_run:
  "use_browser_directly link \<Longrightarrow>
     extract_article_content lib link m [] =
       (Inr (browser_result lib link m),
        Call_extract_with_browser_rendering link #
          (if PLAYWRIGHT_AVAILABLE lib then [Call_fetch_rendered_html link] else []))"
  by (simp add: extract_article_content_direct extract_with_browser_rendering_run)

lemma fallback_run:
  "\<not> use_browser_directly link \<Longrightarrow>
     (\<exists>e. http_get lib link = Inl e) \<or>
     (\<exists>html. http_get lib link = Inr html \<and>
        parser_status (parse_html_content lib html link m) \<noteq> Success) \<Longrightarrow>
     extract_article_content lib link m [] =
       (Inr (browser_result lib link m),
        Call_download_article link # Call_extract_with_browser_rendering link #
          (if PLAYWRIGHT_AVAILABLE lib then [Call_fetch_rendered_html link] else []))"
  by (auto simp: extract_article_content_standard extract_with_browser_rendering_run)

text \<open>
  A URL \<open>scheme://host...\<close> whose host is an entry of \<open>JS_HEAVY_DOMAINS\<close> as the table
  spells it, or a subdomain of one, is routed to the browser path: the run is that of
  \<open>extract_with_browser_rendering\<close>, with no download.
\<close>

lemma literal_host_renders_directly:
  assumes "d \<in> set JS_HEAVY_DOMAINS"
    and "link = scheme @ ustr ''://'' @ subdomain @ d @ rest"
  shows "extract_article_content lib link m [] = extract_with_browser_rendering lib link m [] \<and>
    (\<exists>r tr. extract_article_content lib link m [] = (Inr r, tr) \<and>
       hd tr = Call_extract_with_browser_rendering link \<and>
       (\<forall>u. Call_download_article u \<notin> set tr) \<and>
       parser_method r = Some Browser_fallback \<and> parser_method r \<noteq> Some Standard)"
proof -
  from assms have "link = (scheme @ ustr ''://'' @ subdomain) @ d @ rest"
    by simp
  with assms(1) have direct: "use_browser_directly link"
    unfolding use_browser_directly_iff by blast
  then show ?thesis
    by (simp add: extract_article_content_direct extract_with_browser_rendering_run
        browser_result_method)
qed

lemma merolagani_link_run:
  "\<exists>r. extract_article_content no_browser_env merolagani_link 5000 [] =
          (Inr r, [Call_extract_with_browser_rendering merolagani_link]) \<and>
        parser_method r = Some Browser_fallback \<and> parser_status r = Fallback_unavailable"
proof -
  have d: "ustr ''merolagani.com'' \<in> set JS_HEAVY_DOMAINS"
    by (simp add: JS_HEAVY_DOMAINS_def)
  have shape: "merolagani_link = ustr ''https'' @ ustr ''://'' @ ustr ''www.'' @
      ustr ''merolagani.com'' @ ustr ''/NewsDetail.aspx?newsID=1''"
    by (simp add: merolagani_link_def ustr_def)
  have pw: "\<not> PLAYWRIGHT_AVAILABLE no_browser_env"
    by (simp add: no_browser_env_def example_env_def)
  from literal_host_renders_directly [OF d shape, of no_browser_env 5000]
  have "extract_article_content no_browser_env merolagani_link 5000 [] =
      extract_with_browser_rendering no_browser_env merolagani_link 5000 []"
    by blast
  with pw have "extract_article_content no_browser_env merolagani_link 5000 [] =
      (Inr (browser_result no_browser_env merolagani_link 5000),
       [Call_extract_with_browser_rendering merolagani_link])"
    by (simp add: extract_with_browser_rendering_run)
  with pw show ?thesis
    by (simp add: browser_result_method browser_result_unavailable)
qed

text \<open>
  The same address with the host in capitals.  The module's own domain of a URL,
  \<open>urlparse(url).netloc.lower()\<close> in \<open>extract_publish_time\<close>, is \<open>www.merolagani.com\<close> for
  it, which contains the entry \<open>merolagani.com\<close>.
\<close>

lemma capital_host_link_domain:
  "urlparse standard_env capital_host_link =
     Inr \<lparr>netloc = ustr ''www.MEROLAGANI.COM'', path = ustr ''/NewsDetail.aspx''\<rparr>"
  "str_lower (unicode_db standard_env) (ustr ''www.MEROLAGANI.COM'') = ustr ''www.merolagani.com''"
  "py_in (ustr ''merolagani.com'') (ustr ''www.merolagani.com'')"
  "\<not> use_browser_directly capital_host_link"
  by code_simp+

lemma capital_host_link_run:
  "extract_article_content standard_env capital_host_link 5000 [] =
     (Inr \<lparr>url = capital_host_link, title = sample_text, published = None, author = None,
            body_text = sample_text, parser_status = Success,
            parser_method = Some Standard, fallback_error = None\<rparr>,
      [Call_download_article capital_host_link])"
  by code_simp

text \<open>
  C4.  The claim is that for every URL whose domain is in \<open>JS_HEAVY_DOMAINS\<close>,
  \<open>extract_article_content\<close> renders in the browser without a standard fetch first, and
  never returns \<open>parser_method = "standard"\<close>.  The code does not do this for
  \<open>https://www.MEROLAGANI.COM/NewsDetail.aspx?newsID=1\<close>: the domain of this URL, lower-cased
  as \<open>extract_publish_time\<close> lower-cases it, contains \<open>merolagani.com\<close>, but the routing
  test compares the table with the URL as it is written and fails, so the run makes the
  standard download, never enters the browser path, and returns
  \<open>parser_method = "standard"\<close>.
\<close>

theorem capital_host_takes_standard_path:
  "ustr ''merolagani.com'' \<in> set JS_HEAVY_DOMAINS \<and>
   urlparse standard_env capital_host_link =
     Inr \<lparr>netloc = ustr ''www.MEROLAGANI.COM'', path = ustr ''/NewsDetail.aspx''\<rparr> \<and>
   str_lower (unicode_db standard_env) (ustr ''www.MEROLAGANI.COM'') = ustr ''www.merolagani.com'' \<and>
   py_in (ustr ''merolagani.com'') (ustr ''www.merolagani.com'') \<and>
   \<not> use_browser_directly capital_host_link \<and>
   extract_article_content standard_env capital_host_link 5000 [] =
     (Inr \<lparr>url = capital_host_link, title = sample_text, published = None, author = None,
            body_text = sample_text, parser_status = Success,
            parser_method = Some Standard, fallback_error = None\<rparr>,
      [Call_download_article capital_host_link])"
  using capital_host_link_domain capital_host_link_run
  by (simp add: JS_HEAVY_DOMAINS_def)

text \<open>
  C5.  For a URL outside the allow-list whose standard path fails, by an exception of the
  download or by a parse whose status is not \<open>success\<close>, \<open>extract_article_content\<close> enters
  the browser path exactly once, after the download, and returns
  \<open>parser_method = browser_fallback\<close>.  The render itself is called once if Playwright is
  available and not at all otherwise.
\<close>

theorem standard_failure_falls_back_once:
  assumes "\<not> use_browser_directly link"
    and "(\<exists>e. http_get lib link = Inl e) \<or>
         (\<exists>html. http_get lib link = Inr html \<and>
            parser_status (parse_html_content lib html link m) \<noteq> Success)"
  shows "\<exists>r tr. extract_article_content lib link m [] = (Inr r, tr) \<and>
     parser_method r = Some Browser_fallback \<and>
     tr = Call_download_article link # Call_extract_with_browser_rendering link #
            (if PLAYWRIGHT_AVAILABLE lib then [Call_fetch_rendered_html link] else []) \<and>
     length (filter (\<lambda>ev. \<exists>u. ev = Call_extract_with_browser_rendering u) tr) = 1 \<and>
     length (filter (\<lambda>ev. \<exists>u. ev = Call_fetch_rendered_html u) tr) =
       (if PLAYWRIGHT_AVAILABLE lib then 1 else 0)"
  using fallback_run [OF assms] by (simp add: browser_result_method)

theorem standard_failure_falls_back_once_witness:
  "\<not> use_browser_directly plain_link \<and>
   http_get failing_env plain_link = Inl (Exn (ustr ''Connection refused'')) \<and>
   (\<exists>r tr. extract_article_content failing_env plain_link 5000 [] = (Inr r, tr) \<and>
      parser_method r = Some Browser_fallback \<and>
      length (filter (\<lambda>ev. \<exists>u. ev = Call_extract_with_browser_rendering u) tr) = 1 \<and>
      length (filter (\<lambda>ev. \<exists>u. ev = Call_fetch_rendered_html u) tr) = 1)"
proof -
  have get: "http_get failing_env plain_link = Inl (Exn (ustr ''Connection refused''))"
    and pw: "PLAYWRIGHT_AVAILABLE failing_env"
    by (simp_all add: failing_env_def example_env_def)
  from get have fails: "(\<exists>e. http_get failing_env plain_link = Inl e) \<or>
      (\<exists>html. http_get failing_env plain_link = Inr html \<and>
         parser_status (parse_html_content failing_env html plain_link 5000) \<noteq> Success)"
    by simp
  from standard_failure_falls_back_once [OF plain_link_not_js_heavy fails] pw
  have "\<exists>r tr. extract_article_content failing_env plain_link 5000 [] = (Inr r, tr) \<and>
      parser_method r = Some Browser_fallback \<and>
      length (filter (\<lambda>ev. \<exists>u. ev = Call_extract_with_browser_rendering u) tr) = 1 \<and>
      length (filter (\<lambda>ev. \<exists>u. ev = Call_fetch_rendered_html u) tr) = 1"
    by auto
  with plain_link_not_js_heavy get show ?thesis by simp
qed

text \<open>
  C10.  The routing test is a substring test on the whole URL: it holds exactly when some
  entry of \<open>JS_HEAVY_DOMAINS\<close> occurs anywhere in the URL, and then the run is the browser
  path alone, with no download, whatever the host of the URL is.
\<close>

theorem js_heavy_check_is_substring_of_url:
  "(use_browser_directly link \<longleftrightarrow>
      (\<exists>d \<in> set JS_HEAVY_DOMAINS. \<exists>before after. link = before @ d @ after)) \<and>
   (\<forall>d before after. d \<in> set JS_HEAVY_DOMAINS \<longrightarrow> link = before @ d @ after \<longrightarrow>
      extract_article_content lib link m [] = extract_with_browser_rendering lib link m [] \<and>
      (\<exists>r tr. extract_article_content lib link m [] = (Inr r, tr) \<and>
         (\<forall>u. Call_download_article u \<notin> set tr) \<and>
         parser_method r = Some Browser_fallback))"
proof (intro conjI allI impI)
  show "use_browser_directly link \<longleftrightarrow>
      (\<exists>d \<in> set JS_HEAVY_DOMAINS. \<exists>before after. link = before @ d @ after)"
    by (rule use_browser_directly_iff)
next
  fix d before after
  assume "d \<in> set JS_HEAVY_DOMAINS" and "link = before @ d @ after"
  then have direct: "use_browser_directly link"
    unfolding use_browser_directly_iff by blast
  then show "extract_article_content lib link m [] = extract_with_browser_rendering lib link m []"
    by (rule extract_article_content_direct)
  from direct show "\<exists>r tr. extract_article_content lib link m [] = (Inr r, tr) \<and>
      (\<forall>u. Call_download_article u \<notin> set tr) \<and> parser_method r = Some Browser_fallback"
    by (simp add: direct_run browser_result_method)
qed

theorem js_heavy_check_is_substring_of_url_witness:
  "url_host referrer_link = ustr ''example.com'' \<and>
   \<not> list_ex (\<lambda>d. py_in d (url_host referrer_link)) JS_HEAVY_DOMAINS \<and>
   referrer_link = ustr ''https://example.com/news?ref='' @ ustr ''merolagani.com'' @ [] \<and>
   (\<exists>r tr. extract_article_content failing_env referrer_link 5000 [] = (Inr r, tr) \<and>
      tr = [Call_extract_with_browser_rendering referrer_link,
            Call_fetch_rendered_html referrer_link] \<and>
      parser_method r = Some Browser_fallback)"
proof -
  have host: "url_host referrer_link = ustr ''example.com''"
    by code_simp
  have outside: "\<not> list_ex (\<lambda>d. py_in d (url_host referrer_link)) JS_HEAVY_DOMAINS"
    by code_simp
  have d: "ustr ''merolagani.com'' \<in> set JS_HEAVY_DOMAINS"
    by (simp add: JS_HEAVY_DOMAINS_def)
  have shape: "referrer_link = ustr ''https://example.com/news?ref='' @ ustr ''merolagani.com'' @ []"
    by (simp add: referrer_link_def ustr_def)
  have pw: "PLAYWRIGHT_AVAILABLE failing_env"
    by (simp add: failing_env_def example_env_def)
  from js_heavy_check_is_substring_of_url [of referrer_link failing_env 5000] d shape
  have "extract_article_content failing_env referrer_link 5000 [] =
      extract_with_browser_rendering failing_env referrer_link 5000 []"
    by blast
  with pw have "extract_article_content failing_env referrer_link 5000 [] =
      (Inr (browser_result failing_env referrer_link 5000),
       [Call_extract_with_browser_rendering referrer_link, Call_fetch_rendered_html referrer_link])"
    by (simp add: extract_with_browser_rendering_run)
  with host outside shape show ?thesis
    by (simp add: browser_result_method)
qed

section \<open>Title and publication date\<close>

text \<open>
  C7.  The title is meant never to be empty, with \<open>"Unknown Title"\<close> as the last resort.
  For a page without a usable title element and a URL whose path is empty or \<open>/\<close>, the
  code returns the empty string: \<open>''.split('/')\<close> is \<open>['']\<close>, which is truthy, so the guard
  \<open>if path_parts\<close> holds and the title is derived from the empty last segment.
\<close>

theorem extract_title_empty_for_bare_domain:
  "extract_title no_browser_env empty_page (ustr ''https://example.com/'') = []"
  by code_simp

lemma date_page_parsed: "BeautifulSoup date_env (ustr ''<html>'') = Inr date_page"
  by (simp add: date_env_def example_env_def)

lemma date_page_published:
  "published (parse_html_content date_env (ustr ''<html>'') plain_link 5000) = Some (ustr ''Yesterday'')"
  by code_simp

lemma date_page_no_publish_time: "extract_publish_time date_env date_page plain_link = Inr None"
  by code_simp

lemma yesterday_not_iso: "\<not> iso8601_date_prefix (ustr ''Yesterday'')"
  by code_simp

text \<open>
  C8 as stated fails: for a page whose date element holds the text \<open>Yesterday\<close>, the
  \<open>published\<close> field is that text, which is not an ISO-8601 string.
\<close>

theorem published_not_iso8601_counterexample:
  "published (parse_html_content date_env (ustr ''<html>'') plain_link 5000) = Some (ustr ''Yesterday'') \<and>
   \<not> iso8601_date_prefix (ustr ''Yesterday'')"
  using date_page_published yesterday_not_iso by simp

lemma first_some_SomeD: "first_some f xs = Some y \<Longrightarrow> \<exists>x \<in> set xs. f x = Some y"
  by (induction xs) (auto split: option.splits)

lemma date_of_selector_SomeD:
  "date_of_selector lib soup selector = Some v \<Longrightarrow>
     \<exists>element. select_one soup selector = Some element \<and> v \<noteq> [] \<and>
       (attr element (ustr ''datetime'') = Some v \<or> attr element (ustr ''content'') = Some v \<or>
        (v = clean_text lib element \<and> length v < 50))"
  by (auto simp: date_of_selector_def Let_def split: option.splits if_splits)

lemma extract_published_date_SomeD:
  "extract_published_date lib soup = Some v \<Longrightarrow>
     \<exists>selector \<in> set DATE_SELECTORS. \<exists>element. select_one soup selector = Some element \<and> v \<noteq> [] \<and>
       (attr element (ustr ''datetime'') = Some v \<or> attr element (ustr ''content'') = Some v \<or>
        (v = clean_text lib element \<and> length v < 50))"
proof -
  assume "extract_published_date lib soup = Some v"
  then obtain selector where "selector \<in> set DATE_SELECTORS"
    and "date_of_selector lib soup selector = Some v"
    unfolding extract_published_date_def by (blast dest: first_some_SomeD)
  then show ?thesis
    using date_of_selector_SomeD [of lib soup selector v] by blast
qed

text \<open>
  C8, amended.  The \<open>published\<close> field of what \<open>parse_html_content\<close> returns is absent, or
  the \<open>isoformat()\<close> of the time that \<open>extract_publish_time\<close> found, or else, when no time
  was found, a non-empty raw value of the first element of some selector of
  \<open>DATE_SELECTORS\<close>: its \<open>datetime\<close> attribute, its \<open>content\<close> attribute, or its text if
  that is shorter than 50 characters.  It is absent when the page does not parse.
\<close>

theorem published_isoformat_or_raw:
  "(\<forall>e. BeautifulSoup lib html = Inl e \<longrightarrow>
      published (parse_html_content lib html link m) = None) \<and>
   (\<forall>soup. BeautifulSoup lib html = Inr soup \<longrightarrow>
      published (parse_html_content lib html link m) = None \<or>
      (\<exists>d. extract_publish_time lib soup link = Inr (Some d) \<and>
         published (parse_html_content lib html link m) = Some (isoformat lib d)) \<or>
      (extract_publish_time lib soup link = Inr None \<and>
       (\<exists>selector \<in> set DATE_SELECTORS. \<exists>element v.
          select_one soup selector = Some element \<and>
          published (parse_html_content lib html link m) = Some v \<and> v \<noteq> [] \<and>
          (attr element (ustr ''datetime'') = Some v \<or> attr element (ustr ''content'') = Some v \<or>
           (v = clean_text lib element \<and> length v < 50)))))"
proof (intro conjI allI impI)
  fix e assume "BeautifulSoup lib html = Inl e"
  then show "published (parse_html_content lib html link m) = None"
    by (simp add: parse_html_content_def parse_html_body_def)
next
  fix soup assume soup: "BeautifulSoup lib html = Inr soup"
  let ?p = "published (parse_html_content lib html link m)"
  show "?p = None \<or>
      (\<exists>d. extract_publish_time lib soup link = Inr (Some d) \<and> ?p = Some (isoformat lib d)) \<or>
      (extract_publish_time lib soup link = Inr None \<and>
       (\<exists>selector \<in> set DATE_SELECTORS. \<exists>element v.
          select_one soup selector = Some element \<and> ?p = Some v \<and> v \<noteq> [] \<and>
          (attr element (ustr ''datetime'') = Some v \<or> attr element (ustr ''content'') = Some v \<or>
           (v = clean_text lib element \<and> length v < 50))))"
  proof (cases "extract_publish_time lib soup link")
    case (Inl e)
    with soup show ?thesis
      by (simp add: parse_html_content_def parse_html_body_def Let_def)
  next
    case (Inr t)
    show ?thesis
    proof (cases t)
      case (Some d)
      with Inr soup show ?thesis
        by (simp add: parse_html_content_def parse_html_body_def Let_def)
    next
      case None
      with Inr soup have p: "?p = extract_published_date lib soup"
        by (simp add: parse_html_content_def parse_html_body_def Let_def)
      show ?thesis
      proof (cases "extract_published_date lib soup")
        case None
        with p show ?thesis by simp
      next
        case (Some v)
        from extract_published_date_SomeD [OF Some] p Some Inr \<open>t = None\<close>
        show ?thesis by auto
      qed
    qed
  qed
qed

theorem published_isoformat_or_raw_witness:
  "BeautifulSoup date_env (ustr ''<html>'') = Inr date_page \<and>
   extract_publish_time date_env date_page plain_link = Inr None \<and>
   (\<exists>selector \<in> set DATE_SELECTORS. \<exists>element.
      select_one date_page selector = Some element \<and>
      attr element (ustr ''datetime'') = None \<and> attr element (ustr ''content'') = None \<and>
      clean_text date_env element = ustr ''Yesterday'' \<and>
      published (parse_html_content date_env (ustr ''<html>'') plain_link 5000) =
        Some (clean_text date_env element))"
proof -
  let ?p = "published (parse_html_content date_env (ustr ''<html>'') plain_link 5000)"
  from published_isoformat_or_raw [of date_env "ustr ''<html>''" plain_link 5000] date_page_parsed
  have "?p = None \<or>
      (\<exists>d. extract_publish_time date_env date_page plain_link = Inr (Some d) \<and>
         ?p = Some (isoformat date_env d)) \<or>
      (extract_publish_time date_env date_page plain_link = Inr None \<and>
       (\<exists>selector \<in> set DATE_SELECTORS. \<exists>element v.
          select_one date_page selector = Some element \<and> ?p = Some v \<and> v \<noteq> [] \<and>
          (attr element (ustr ''datetime'') = Some v \<or> attr element (ustr ''content'') = Some v \<or>
           (v = clean_text date_env element \<and> length v < 50))))"
    by blast
  with date_page_published date_page_no_publish_time
  obtain selector element where sel: "selector \<in> set DATE_SELECTORS"
    and el: "select_one date_page selector = Some element"
    and raw: "attr element (ustr ''datetime'') = Some (ustr ''Yesterday'') \<or>
              attr element (ustr ''content'') = Some (ustr ''Yesterday'') \<or>
              ustr ''Yesterday'' = clean_text date_env element"
    by auto
  from el have "element = date_element"
    by (auto simp: select_one_def date_page_def document_def split: list.splits option.splits if_splits)
  moreover have "attr date_element (ustr ''datetime'') = None"
    and "attr date_element (ustr ''content'') = None"
    and "clean_text date_env date_element = ustr ''Yesterday''"
    by code_simp+
  ultimately have "select_one date_page selector = Some date_element \<and>
      attr date_element (ustr ''datetime'') = None \<and> attr date_element (ustr ''content'') = None \<and>
      clean_text date_env date_element = ustr ''Yesterday'' \<and>
      published (parse_html_content date_env (ustr ''<html>'') plain_link 5000) =
        Some (clean_text date_env date_element)"
    using el date_page_published by simp
  with sel have "\<exists>selector \<in> set DATE_SELECTORS. \<exists>element.
      select_one date_page selector = Some element \<and>
      attr element (ustr ''datetime'') = None \<and> attr element (ustr ''content'') = None \<and>
      clean_text date_env element = ustr ''Yesterday'' \<and>
      published (parse_html_content date_env (ustr ''<html>'') plain_link 5000) =
        Some (clean_text date_env element)"
    by blast
  with date_page_parsed date_page_no_publish_time show ?thesis
    by blast
qed

section \<open>Truncation of the body text\<close>

lemma slice_to_nonneg: "0 \<le> m \<Longrightarrow> slice_to s m = take (nat m) s"
  by (simp add: slice_to_def)

lemma length_slice_to: "0 \<le> m \<Longrightarrow> int (length (slice_to s m)) \<le> m"
  by (simp add: slice_to_def)

lemma length_ellipsis: "length (ustr ''...'') = 3"
  by (simp add: ustr_def)

lemma length_truncate_with_ellipsis:
  "0 \<le> m \<Longrightarrow> int (length (truncate_with_ellipsis s m)) \<le> m + 3"
  by (simp add: truncate_with_ellipsis_def slice_to_def length_ellipsis)

lemma extract_generic_content_candidates:
  "body_candidates lib soup \<noteq> [] \<Longrightarrow>
     extract_generic_content lib soup m =
       truncate_with_ellipsis
         (clean_article_content (unicode_db lib) (fst (best_candidate (body_candidates lib soup)))) m"
  by (simp add: extract_generic_content_def Let_def case_prod_beta)

lemma extract_bikashnews_content_full_slice:
  "\<exists>cand. extract_bikashnews_content_full lib soup m = slice_to (clean_bikashnews_content cand) m"
  unfolding extract_bikashnews_content_full_def Let_def by (simp split: if_splits) blast

lemma extract_merolagani_content_full_slice:
  "\<exists>cand. extract_merolagani_content_full lib soup m = slice_to (clean_merolagani_content cand) m"
  unfolding extract_merolagani_content_full_def Let_def by (simp split: if_splits) blast

text \<open>The runs of the examples on the page with one paragraph.\<close>

lemma paragraph_merolagani_40:
  "extract_body_text no_browser_env (paragraph_page sample_sentence) merolagani_link 40 =
     take 40 sample_sentence"
  by code_simp

lemma paragraph_merolagani_5000:
  "extract_body_text no_browser_env (paragraph_page sample_sentence) merolagani_link 5000 =
     sample_sentence"
  by code_simp

lemma sample_sentence_facts:
  "length sample_sentence = 70"
  "clean_merolagani_content sample_sentence = sample_sentence"
  "\<not> endswith (take 40 sample_sentence) (ustr ''...'')"
  "clean_article_content (unicode_db no_browser_env) sample_sentence = drop 11 sample_sentence"
  "dateline_rest sample_sentence = Some (drop 11 sample_sentence)"
  by code_simp+

lemma paragraph_generic_ends_with_dots:
  "extract_body_text no_browser_env (paragraph_page (sample_sentence @ ustr ''...'')) plain_link 5000 =
     drop 11 sample_sentence @ ustr ''...''"
  "length (clean_article_content (unicode_db no_browser_env) (sample_sentence @ ustr ''...'')) = 62"
  by code_simp+

lemma paragraph_generic_negative:
  "length (extract_body_text no_browser_env (paragraph_page sample_sentence) plain_link (- 1)) = 61"
  by code_simp

text \<open>
  C3 as stated fails.  In Source-C the paragraph \<open>sample_sentence\<close> (70 characters after
  the strategy's own cleanup) is cut to \<open>max_body_length = 40\<close> characters with no
  \<open>"..."\<close> at the end, and with the default length it is returned with its dateline,
  which the shared cleanup \<open>clean_article_content\<close> would have removed.  In the Generic
  strategy a candidate of 62 characters that itself ends with \<open>"..."\<close> is returned with
  that ending although it is shorter than the default length, and for the negative length
  \<open>-1\<close> the result has 61 characters.
\<close>

theorem truncation_marker_counterexample:
  "extract_body_text no_browser_env (paragraph_page sample_sentence) merolagani_link 40 =
     take 40 sample_sentence \<and>
   clean_merolagani_content sample_sentence = sample_sentence \<and>
   40 < length sample_sentence \<and>
   \<not> endswith (take 40 sample_sentence) (ustr ''...'') \<and>
   extract_body_text no_browser_env (paragraph_page sample_sentence) merolagani_link 5000 =
     sample_sentence \<and>
   dateline_rest sample_sentence = Some (drop 11 sample_sentence) \<and>
   clean_article_content (unicode_db no_browser_env) sample_sentence = drop 11 sample_sentence \<and>
   extract_body_text no_browser_env (paragraph_page (sample_sentence @ ustr ''...'')) plain_link 5000 =
     drop 11 sample_sentence @ ustr ''...'' \<and>
   length (clean_article_content (unicode_db no_browser_env) (sample_sentence @ ustr ''...'')) = 62 \<and>
   length (extract_body_text no_browser_env (paragraph_page sample_sentence) plain_link (- 1)) = 61"
  using paragraph_merolagani_40 paragraph_merolagani_5000 sample_sentence_facts
    paragraph_generic_ends_with_dots paragraph_generic_negative
  by simp

text \<open>
  C3, amended.  For \<open>max_body_length \<ge> 0\<close>: when the Generic strategy has a candidate, its
  result is the candidate cleaned by \<open>clean_article_content\<close> if that has at most
  \<open>max_body_length\<close> characters, and otherwise its first \<open>max_body_length\<close> characters
  followed by \<open>"..."\<close>, so at most \<open>max_body_length + 3\<close> characters.  The results of
  Source-B and Source-C are the first \<open>max_body_length\<close> characters of a text cleaned by
  the strategy's own cleanup, with no marker added: at most \<open>max_body_length\<close> characters.
\<close>

theorem truncation_by_strategy:
  assumes "0 \<le> m"
  shows "(body_candidates lib soup \<noteq> [] \<longrightarrow>
      (\<exists>cand. cand = clean_article_content (unicode_db lib) (fst (best_candidate (body_candidates lib soup))) \<and>
         (int (length cand) \<le> m \<longrightarrow> extract_generic_content lib soup m = cand) \<and>
         (m < int (length cand) \<longrightarrow>
            extract_generic_content lib soup m = take (nat m) cand @ ustr ''...'')) \<and>
      int (length (extract_generic_content lib soup m)) \<le> m + 3) \<and>
    (\<exists>cand. extract_bikashnews_content_full lib soup m =
       take (nat m) (clean_bikashnews_content cand)) \<and>
    int (length (extract_bikashnews_content_full lib soup m)) \<le> m \<and>
    (\<exists>cand. extract_merolagani_content_full lib soup m =
       take (nat m) (clean_merolagani_content cand)) \<and>
    int (length (extract_merolagani_content_full lib soup m)) \<le> m"
proof (intro conjI impI)
  assume cands: "body_candidates lib soup \<noteq> []"
  show "\<exists>cand. cand = clean_article_content (unicode_db lib) (fst (best_candidate (body_candidates lib soup))) \<and>
      (int (length cand) \<le> m \<longrightarrow> extract_generic_content lib soup m = cand) \<and>
      (m < int (length cand) \<longrightarrow>
         extract_generic_content lib soup m = take (nat m) cand @ ustr ''...'')"
    using assms
    by (simp add: extract_generic_content_candidates [OF cands] truncate_with_ellipsis_def
        slice_to_nonneg)
  show "int (length (extract_generic_content lib soup m)) \<le> m + 3"
    using assms
    by (simp add: extract_generic_content_candidates [OF cands] length_truncate_with_ellipsis)
next
  from extract_bikashnews_content_full_slice [of lib soup m]
  obtain cand where b: "extract_bikashnews_content_full lib soup m =
      slice_to (clean_bikashnews_content cand) m"
    by blast
  with assms show "\<exists>cand. extract_bikashnews_content_full lib soup m =
      take (nat m) (clean_bikashnews_content cand)"
    by (auto simp: slice_to_nonneg)
  from b assms show "int (length (extract_bikashnews_content_full lib soup m)) \<le> m"
    by (simp add: length_slice_to)
next
  from extract_merolagani_content_full_slice [of lib soup m]
  obtain cand where c: "extract_merolagani_content_full lib soup m =
      slice_to (clean_merolagani_content cand) m"
    by blast
  with assms show "\<exists>cand. extract_merolagani_content_full lib soup m =
      take (nat m) (clean_merolagani_content cand)"
    by (auto simp: slice_to_nonneg)
  from c assms show "int (length (extract_merolagani_content_full lib soup m)) \<le> m"
    by (simp add: length_slice_to)
qed

lemma paragraph_generic_candidates:
  "map fst (body_candidates no_browser_env (paragraph_page sample_sentence)) = [sample_sentence]"
  by code_simp

lemma paragraph_generic_best:
  "fst (best_candidate (body_candidates no_browser_env (paragraph_page sample_sentence))) =
     sample_sentence"
  by code_simp

theorem truncation_by_strategy_witness:
  "(0::int) \<le> 40 \<and>
   body_candidates no_browser_env (paragraph_page sample_sentence) \<noteq> [] \<and>
   40 < length (clean_article_content (unicode_db no_browser_env) sample_sentence) \<and>
   extract_generic_content no_browser_env (paragraph_page sample_sentence) 40 =
     take 40 (drop 11 sample_sentence) @ ustr ''...'' \<and>
   int (length (extract_generic_content no_browser_env (paragraph_page sample_sentence) 40)) \<le> 43 \<and>
   int (length (extract_merolagani_content_full no_browser_env (paragraph_page sample_sentence) 40)) \<le> 40"
proof -
  have m: "(0::int) \<le> 40" by simp
  have cands: "body_candidates no_browser_env (paragraph_page sample_sentence) \<noteq> []"
    using paragraph_generic_candidates by auto
  have long: "40 < length (clean_article_content (unicode_db no_browser_env) sample_sentence)"
    by (simp add: sample_sentence_facts)
  from truncation_by_strategy [OF m, of no_browser_env "paragraph_page sample_sentence"] cands
  have cut: "40 < int (length (clean_article_content (unicode_db no_browser_env) sample_sentence)) \<longrightarrow>
      extract_generic_content no_browser_env (paragraph_page sample_sentence) 40 =
        take (nat 40) (clean_article_content (unicode_db no_browser_env) sample_sentence) @ ustr ''...''"
    and bound: "int (length (extract_generic_content no_browser_env (paragraph_page sample_sentence) 40))
      \<le> 40 + 3"
    and mero: "int (length (extract_merolagani_content_full no_browser_env
      (paragraph_page sample_sentence) 40)) \<le> 40"
    by (simp_all add: paragraph_generic_best)
  from cut long have "extract_generic_content no_browser_env (paragraph_page sample_sentence) 40 =
      take 40 (drop 11 sample_sentence) @ ustr ''...''"
    by (simp add: sample_sentence_facts)
  with m cands long bound mero show ?thesis by simp
qed

section \<open>Navigation phrases\<close>

lemma set_sort_by_length_desc: "set (sort_by_length_desc xs) = set xs"
  by (simp add: sort_by_length_desc_def)

lemma hd_sort_by_length_desc: "xs \<noteq> [] \<Longrightarrow> hd (sort_by_length_desc xs) \<in> set xs"
proof -
  assume "xs \<noteq> []"
  moreover have "length (sort_by_length_desc xs) = length xs"
    by (simp add: sort_by_length_desc_def)
  ultimately have "sort_by_length_desc xs \<noteq> []"
    by (metis length_0_conv)
  then have "hd (sort_by_length_desc xs) \<in> set (sort_by_length_desc xs)"
    by (rule hd_in_set)
  then show ?thesis
    by (simp add: set_sort_by_length_desc)
qed

lemma best_candidate_in_set: "cands \<noteq> [] \<Longrightarrow> best_candidate cands \<in> set cands"
  using hd_sort_by_length_desc [of cands]
    hd_sort_by_length_desc [of "filter (\<lambda>(t, len, selector). has_substantial_nepali_content t) cands"]
  by (auto simp: best_candidate_def Let_def)

text \<open>The candidates that are tested whole.\<close>

lemma selector_candidates_not_navigation:
  "c \<in> set (selector_candidates lib soup) \<Longrightarrow> \<not> is_navigation_content (unicode_db lib) (fst c)"
  by (auto simp: selector_candidates_def)

lemma element_candidates_not_navigation:
  "c \<in> set (element_candidates lib soup) \<Longrightarrow> \<not> is_navigation_content (unicode_db lib) (fst c)"
  by (auto simp: element_candidates_def)

text \<open>The candidates and results that are joined from tested pieces, and their pieces.\<close>

lemma paragraph_candidates_joined:
  "c \<in> set (paragraph_candidates lib soup) \<Longrightarrow>
     fst c = py_join (ustr '' '') (good_paragraphs lib (find_all soup [ustr ''p'']))"
  by (auto simp: paragraph_candidates_def Let_def split: if_splits)

lemma text_node_candidates_joined:
  "c \<in> set (text_node_candidates lib soup) \<Longrightarrow>
     fst c = py_join (ustr '' '') (nepali_texts lib soup)"
  by (auto simp: text_node_candidates_def Let_def split: if_splits)

lemma prefix_slice_to: "prefix (slice_to s n) s"
  by (simp add: slice_to_def take_is_prefix)

lemma extract_bikashnews_content_joined:
  "prefix (extract_bikashnews_content lib soup n)
     (py_join (ustr '' '') (bikashnews_content_parts lib soup))"
  by (simp add: extract_bikashnews_content_def Let_def prefix_slice_to)

lemma good_paragraphs_not_navigation:
  "p \<in> set (good_paragraphs lib paragraphs) \<Longrightarrow> \<not> is_navigation_content (unicode_db lib) p"
  by (simp add: good_paragraphs_def)

lemma nepali_texts_not_navigation:
  "p \<in> set (nepali_texts lib soup) \<Longrightarrow> \<not> is_navigation_content (unicode_db lib) p"
  by (auto simp: nepali_texts_def)

lemma bikashnews_content_parts_not_navigation:
  "p \<in> set (bikashnews_content_parts lib soup) \<Longrightarrow> \<not> is_navigation_content (unicode_db lib) p"
  by (auto simp: bikashnews_content_parts_def Let_def split: if_splits)

lemma paragraphs_not_navigation:
  "t \<in> set (bikashnews_paragraphs lib soup) \<union> set (merolagani_paragraphs lib soup) \<Longrightarrow>
     \<not> is_navigation_content (unicode_db lib) t"
  by (auto simp: bikashnews_paragraphs_def merolagani_paragraphs_def)

text \<open>The runs of the examples on the pages with one \<open>div class="content"\<close>.\<close>

lemma menu_page_merolagani:
  "extract_body_text no_browser_env (content_page menu_text) merolagani_link 5000 = menu_text"
  by code_simp

lemma menu_text_is_navigation: "is_navigation_content (unicode_db no_browser_env) menu_text"
  by code_simp

lemma menu_text_phrase:
  "menu_text = [] @ ustr ''Home News Latest News Stock Market'' @ [32] @ sample_sentence"
  by (simp add: menu_text_def ustr_def)

lemma menu_page_generic:
  "selector_candidates no_browser_env (content_page menu_text) = []"
  "extract_body_text no_browser_env (content_page menu_text) plain_link 5000 = []"
  by code_simp+

lemma article_page_generic:
  "map fst (selector_candidates no_browser_env (content_page article_text)) = [article_text]"
  "fst (best_candidate (body_candidates no_browser_env (content_page article_text))) = article_text"
  by code_simp+

text \<open>
  C6 as stated fails for Source-C: a paragraph that starts with the navigation phrase
  \<open>Home News Latest News Stock Market\<close> and goes on with a Nepali sentence passes the
  filters of the content-div tier and is returned whole as the body text.
\<close>

theorem navigation_phrase_selected_counterexample:
  "ustr ''Home News Latest News Stock Market'' \<in> set NAV_PATTERNS \<and>
   menu_text = [] @ ustr ''Home News Latest News Stock Market'' @ [32] @ sample_sentence \<and>
   is_navigation_content (unicode_db no_browser_env) menu_text \<and>
   extract_body_text no_browser_env (content_page menu_text) merolagani_link 5000 = menu_text"
  using menu_page_merolagani menu_text_is_navigation menu_text_phrase
  by (simp add: NAV_PATTERNS_def)

text \<open>
  C6, amended.  Wherever a tier applies \<open>is_navigation_content\<close>, a text that contains a
  navigation phrase, as extracted and before cleanup, is rejected.  In the Generic
  strategy every selector candidate and every element candidate is free of navigation
  phrases, and so is the candidate selected from the selector tier or from the element
  tier.  The paragraph candidate is the list \<open>good_paragraphs\<close> joined by blanks and the
  text-node candidate is the list \<open>nepali_texts\<close> joined by blanks, and every text in
  these two lists is free of navigation phrases.  In Source-B the result of
  \<open>extract_bikashnews_content\<close> (the content-div tier) is the list \<open>content_parts\<close> joined by
  blanks, or the start of that text, and every text in \<open>content_parts\<close> is free of
  navigation phrases; so is every paragraph joined by the final fallbacks of Source-B and
  Source-C.  The joined texts are not tested again, and the other tiers of Source-B and
  Source-C filter with their own tables.
\<close>

theorem navigation_rejected_where_tested:
  "(\<forall>c \<in> set (selector_candidates lib soup) \<union> set (element_candidates lib soup).
      \<not> is_navigation_content (unicode_db lib) (fst c)) \<and>
   (selector_candidates lib soup \<noteq> [] \<or>
    paragraph_candidates lib soup = [] \<and> element_candidates lib soup \<noteq> [] \<longrightarrow>
      \<not> is_navigation_content (unicode_db lib) (fst (best_candidate (body_candidates lib soup)))) \<and>
   (\<forall>c \<in> set (paragraph_candidates lib soup).
      fst c = py_join (ustr '' '') (good_paragraphs lib (find_all soup [ustr ''p'']))) \<and>
   (\<forall>c \<in> set (text_node_candidates lib soup).
      fst c = py_join (ustr '' '') (nepali_texts lib soup)) \<and>
   prefix (extract_bikashnews_content lib soup m)
     (py_join (ustr '' '') (bikashnews_content_parts lib soup)) \<and>
   (\<forall>p \<in> set (good_paragraphs lib (find_all soup [ustr ''p''])) \<union> set (nepali_texts lib soup) \<union>
           set (bikashnews_content_parts lib soup) \<union>
           set (bikashnews_paragraphs lib soup) \<union> set (merolagani_paragraphs lib soup).
      \<not> is_navigation_content (unicode_db lib) p)"
proof (intro conjI ballI impI)
  fix c assume "c \<in> set (selector_candidates lib soup) \<union> set (element_candidates lib soup)"
  then show "\<not> is_navigation_content (unicode_db lib) (fst c)"
    using selector_candidates_not_navigation element_candidates_not_navigation by blast
next
  assume tier: "selector_candidates lib soup \<noteq> [] \<or>
      paragraph_candidates lib soup = [] \<and> element_candidates lib soup \<noteq> []"
  let ?cands = "body_candidates lib soup"
  from tier have "?cands \<noteq> [] \<and>
      set ?cands \<subseteq> set (selector_candidates lib soup) \<union> set (element_candidates lib soup)"
    by (auto simp: body_candidates_def Let_def)
  then have "best_candidate ?cands \<in> set (selector_candidates lib soup) \<union>
      set (element_candidates lib soup)"
    using best_candidate_in_set [of ?cands] by blast
  then show "\<not> is_navigation_content (unicode_db lib) (fst (best_candidate ?cands))"
    using selector_candidates_not_navigation element_candidates_not_navigation by blast
next
  fix c assume "c \<in> set (paragraph_candidates lib soup)"
  then show "fst c = py_join (ustr '' '') (good_paragraphs lib (find_all soup [ustr ''p'']))"
    by (rule paragraph_candidates_joined)
next
  fix c assume "c \<in> set (text_node_candidates lib soup)"
  then show "fst c = py_join (ustr '' '') (nepali_texts lib soup)"
    by (rule text_node_candidates_joined)
next
  show "prefix (extract_bikashnews_content lib soup m)
      (py_join (ustr '' '') (bikashnews_content_parts lib soup))"
    by (rule extract_bikashnews_content_joined)
next
  fix p assume "p \<in> set (good_paragraphs lib (find_all soup [ustr ''p''])) \<union>
      set (nepali_texts lib soup) \<union> set (bikashnews_content_parts lib soup) \<union>
      set (bikashnews_paragraphs lib soup) \<union> set (merolagani_paragraphs lib soup)"
  then show "\<not> is_navigation_content (unicode_db lib) p"
    using good_paragraphs_not_navigation nepali_texts_not_navigation
      bikashnews_content_parts_not_navigation paragraphs_not_navigation
    by blast
qed

theorem navigation_rejected_where_tested_witness:
  "selector_candidates no_browser_env (content_page article_text) \<noteq> [] \<and>
   fst (best_candidate (body_candidates no_browser_env (content_page article_text))) = article_text \<and>
   \<not> is_navigation_content (unicode_db no_browser_env) article_text \<and>
   selector_candidates no_browser_env (content_page menu_text) = [] \<and>
   extract_body_text no_browser_env (content_page menu_text) plain_link 5000 = []"
proof -
  have cands: "selector_candidates no_browser_env (content_page article_text) \<noteq> []"
    using article_page_generic(1) by auto
  with navigation_rejected_where_tested [of no_browser_env "content_page article_text" 5000]
  have "\<not> is_navigation_content (unicode_db no_browser_env)
      (fst (best_candidate (body_candidates no_browser_env (content_page article_text))))"
    by blast
  with cands show ?thesis
    by (simp add: article_page_generic menu_page_generic)
qed

end
